theory Spec2Isabelle
  imports Complex_Main "HOL-Library.Log_Nat"
begin

section \<open>JavaScript values\<close>

text \<open>
  The route handlers of \<^verbatim>\<open>src/backend/server.js\<close> work on values that body-parser
  produced with \<^verbatim>\<open>JSON.parse\<close>: a property of the request body is absent
  (\<^verbatim>\<open>undefined\<close>) or holds a JSON value. Numbers are IEEE 754 binary64 values; a
  finite one is carried as the real number it denotes (the sign of zero is not kept:
  \<^verbatim>\<open>JSON.stringify\<close> prints both zeros as \<^verbatim>\<open>0\<close>).
\<close>

datatype jsnum = Fin real | PosInf | NegInf | NaN

datatype jsval =
    JUndefined
  | JNull
  | JBool bool
  | JNum jsnum
  | JStr string
  | JArr "jsval list"
  | JObj "(string \<times> jsval) list"

datatype js_error = TypeError string | ExternalError string

fun message :: "js_error \<Rightarrow> string" where
  "message (TypeError m) = m"
| "message (ExternalError m) = m"

text \<open>The operand of \<^verbatim>\<open>!x\<close> and of \<^verbatim>\<open>if (x)\<close>: ToBoolean.\<close>

fun truthy :: "jsval \<Rightarrow> bool" where
  "truthy JUndefined = False"
| "truthy JNull = False"
| "truthy (JBool b) = b"
| "truthy (JNum n) = (n \<noteq> Fin 0 \<and> n \<noteq> NaN)"
| "truthy (JStr s) = (s \<noteq> [])"
| "truthy (JArr xs) = True"
| "truthy (JObj ps) = True"

text \<open>
  Reading a named property in a destructuring pattern or a member expression. The
  names read by the handlers are on no built-in prototype, so a value that is not a
  plain object (an array, a string, a number) yields \<^verbatim>\<open>undefined\<close>.
\<close>

fun get_prop :: "jsval \<Rightarrow> string \<Rightarrow> jsval" where
  "get_prop (JObj ps) k = (case map_of ps k of None \<Rightarrow> JUndefined | Some v \<Rightarrow> v)"
| "get_prop v k = JUndefined"

text \<open>A destructuring default \<^verbatim>\<open>{ x = d }\<close> applies to \<^verbatim>\<open>undefined\<close> only.\<close>

definition with_default :: "jsval \<Rightarrow> jsval \<Rightarrow> jsval" where
  "with_default v d = (if v = JUndefined then d else v)"

subsection \<open>Binary64 arithmetic\<close>

definition pow2 :: "int \<Rightarrow> real" where
  "pow2 e = (if 0 \<le> e then 2 ^ nat e else 1 / 2 ^ nat (- e))"

text \<open>For \<open>0 < x\<close>, the exponent \<open>e\<close> with \<open>2\<^sup>e \<le> x < 2\<^sup>e\<^sup>+\<^sup>1\<close>.\<close>

definition floor_log2 :: "real \<Rightarrow> int" where
  "floor_log2 x = (if 1 \<le> x then bitlen \<lfloor>x\<rfloor> - 1 else - bitlen (\<lceil>1 / x\<rceil> - 1))"

definition round_half_even :: "real \<Rightarrow> int" where
  "round_half_even y =
     (let f = \<lfloor>y\<rfloor>; d = y - of_int f
      in if d < 1 / 2 then f else if 1 / 2 < d then f + 1 else if even f then f else f + 1)"

text \<open>
  Rounding of an exact result to binary64, to nearest with ties to even: 53
  significant bits, subnormals below \<open>2\<^sup>-\<^sup>1\<^sup>0\<^sup>2\<^sup>2\<close>, overflow to infinity at
  \<open>2\<^sup>1\<^sup>0\<^sup>2\<^sup>4\<close>.
\<close>

definition fl64 :: "real \<Rightarrow> jsnum" where
  "fl64 x =
     (if x = 0 then Fin 0
      else let m = \<bar>x\<bar>;
               e = max (floor_log2 m) (- 1022);
               u = pow2 (e - 52);
               r = of_int (round_half_even (m / u)) * u
           in if pow2 1024 \<le> r then (if 0 < x then PosInf else NegInf)
              else Fin (sgn x * r))"

text \<open>A real number is a binary64 value when rounding leaves it unchanged.\<close>

definition is_binary64 :: "real \<Rightarrow> bool" where
  "is_binary64 x = (fl64 x = Fin x)"

text \<open>The literal \<^verbatim>\<open>0.05\<close>: the binary64 value nearest to \<open>1/20\<close>.\<close>

definition c005 :: real where
  "c005 = 3602879701896397 / 72057594037927936"

fun js_mul :: "jsnum \<Rightarrow> jsnum \<Rightarrow> jsnum" where
  "js_mul NaN b = NaN"
| "js_mul a NaN = NaN"
| "js_mul (Fin x) (Fin y) = fl64 (x * y)"
| "js_mul (Fin x) PosInf = (if x = 0 then NaN else if 0 < x then PosInf else NegInf)"
| "js_mul (Fin x) NegInf = (if x = 0 then NaN else if 0 < x then NegInf else PosInf)"
| "js_mul PosInf (Fin y) = (if y = 0 then NaN else if 0 < y then PosInf else NegInf)"
| "js_mul NegInf (Fin y) = (if y = 0 then NaN else if 0 < y then NegInf else PosInf)"
| "js_mul PosInf PosInf = PosInf"
| "js_mul PosInf NegInf = NegInf"
| "js_mul NegInf PosInf = NegInf"
| "js_mul NegInf NegInf = PosInf"

fun js_sub :: "jsnum \<Rightarrow> jsnum \<Rightarrow> jsnum" where
  "js_sub NaN b = NaN"
| "js_sub a NaN = NaN"
| "js_sub (Fin x) (Fin y) = fl64 (x - y)"
| "js_sub (Fin x) PosInf = NegInf"
| "js_sub (Fin x) NegInf = PosInf"
| "js_sub PosInf PosInf = NaN"
| "js_sub PosInf b = PosInf"
| "js_sub NegInf NegInf = NaN"
| "js_sub NegInf b = NegInf"

text \<open>
  \<^verbatim>\<open>Math.round\<close>: the nearest integer, a tie going towards \<open>+\<infinity>\<close>. On a binary64
  value this is exactly \<open>\<lfloor>x + 1/2\<rfloor>\<close>.
\<close>

fun Math_round :: "jsnum \<Rightarrow> jsnum" where
  "Math_round (Fin x) = Fin (of_int \<lfloor>x + 1 / 2\<rfloor>)"
| "Math_round n = n"

subsection \<open>Conversions\<close>

text \<open>
  The two conversions between numbers and strings (StringToNumber and
  Number::toString of ECMAScript) belong to the engine and are parameters of the
  model, with the clock.
\<close>

record js_runtime =
  StringToNumber :: "string \<Rightarrow> jsnum"
  NumberToString :: "jsnum \<Rightarrow> string"
  Date_now :: int

fun join_comma :: "(js_error + string) list \<Rightarrow> js_error + string" where
  "join_comma [] = Inr []"
| "join_comma [r] = r"
| "join_comma (r # rs) =
     (case r of
        Inl e \<Rightarrow> Inl e
      | Inr s \<Rightarrow> (case join_comma rs of Inl e \<Rightarrow> Inl e | Inr t \<Rightarrow> Inr (s @ '','' @ t)))"

text \<open>
  ToString, as a template literal applies it. An array is joined with commas,
  \<^verbatim>\<open>null\<close> elements printing as the empty string. A plain object made by
  \<^verbatim>\<open>JSON.parse\<close> has no callable property of its own: it prints through
  \<^verbatim>\<open>Object.prototype.toString\<close> unless an own property named \<^verbatim>\<open>toString\<close>
  hides that method, and then the conversion throws.
\<close>

fun ToString :: "js_runtime \<Rightarrow> jsval \<Rightarrow> js_error + string" where
  "ToString rt JUndefined = Inr ''undefined''"
| "ToString rt JNull = Inr ''null''"
| "ToString rt (JBool b) = Inr (if b then ''true'' else ''false'')"
| "ToString rt (JNum n) = Inr (NumberToString rt n)"
| "ToString rt (JStr s) = Inr s"
| "ToString rt (JArr xs) =
     join_comma (map (\<lambda>x. if x = JUndefined \<or> x = JNull then Inr [] else ToString rt x) xs)"
| "ToString rt (JObj ps) =
     (if ''toString'' \<in> fst ` set ps
      then Inl (TypeError ''Cannot convert object to primitive value'')
      else Inr ''[object Object]'')"

text \<open>ToNumber, as the operators \<^verbatim>\<open>*\<close> and \<^verbatim>\<open>-\<close> apply it to an operand.\<close>

fun ToNumber :: "js_runtime \<Rightarrow> jsval \<Rightarrow> js_error + jsnum" where
  "ToNumber rt JUndefined = Inr NaN"
| "ToNumber rt JNull = Inr (Fin 0)"
| "ToNumber rt (JBool b) = Inr (Fin (if b then 1 else 0))"
| "ToNumber rt (JNum n) = Inr n"
| "ToNumber rt (JStr s) = Inr (StringToNumber rt s)"
| "ToNumber rt v =
     (case ToString rt v of Inl e \<Rightarrow> Inl e | Inr s \<Rightarrow> Inr (StringToNumber rt s))"

section \<open>The clock: \<^verbatim>\<open>new Date().toISOString()\<close>\<close>

text \<open>
  A time value is a number of milliseconds since 1970-01-01T00:00:00Z, of absolute
  value at most \<open>8.64 \<times> 10\<^sup>1\<^sup>5\<close>. The functions below are those of the ECMAScript
  specification (Day, DayFromYear, YearFromTime, MonthFromTime, DateFromTime, ...);
  YearFromTime, specified as the largest year that starts no later than the time, is
  computed from an estimate that is off by at most one.
\<close>

definition msPerDay :: int where
  "msPerDay = 86400000"

definition Day :: "int \<Rightarrow> int" where
  "Day t = t div msPerDay"

definition TimeWithinDay :: "int \<Rightarrow> int" where
  "TimeWithinDay t = t mod msPerDay"

definition DaysInYear :: "int \<Rightarrow> int" where
  "DaysInYear y =
     (if y mod 4 \<noteq> 0 then 365 else if y mod 100 \<noteq> 0 then 366
      else if y mod 400 \<noteq> 0 then 365 else 366)"

definition DayFromYear :: "int \<Rightarrow> int" where
  "DayFromYear y =
     365 * (y - 1970) + (y - 1969) div 4 - (y - 1901) div 100 + (y - 1601) div 400"

definition YearFromTime :: "int \<Rightarrow> int" where
  "YearFromTime t =
     (let d = Day t; est = 1970 + (400 * d) div 146097
      in if DayFromYear (est + 1) \<le> d then est + 1
         else if DayFromYear est \<le> d then est
         else est - 1)"

definition DayWithinYear :: "int \<Rightarrow> int" where
  "DayWithinYear t = Day t - DayFromYear (YearFromTime t)"

definition InLeapYear :: "int \<Rightarrow> int" where
  "InLeapYear t = (if DaysInYear (YearFromTime t) = 366 then 1 else 0)"

text \<open>The day of the year on which month \<open>m\<close> (0 to 11) starts; \<open>12\<close> gives the year's end.\<close>

definition month_start :: "int \<Rightarrow> int \<Rightarrow> int" where
  "month_start leap m =
     (if m \<le> 0 then 0 else if m = 1 then 31 else if m = 2 then 59 + leap
      else if m = 3 then 90 + leap else if m = 4 then 120 + leap
      else if m = 5 then 151 + leap else if m = 6 then 181 + leap
      else if m = 7 then 212 + leap else if m = 8 then 243 + leap
      else if m = 9 then 273 + leap else if m = 10 then 304 + leap
      else if m = 11 then 334 + leap else 365 + leap)"

definition MonthFromTime :: "int \<Rightarrow> int" where
  "MonthFromTime t =
     (let d = DayWithinYear t; leap = InLeapYear t
      in if d < 31 then 0 else if d < 59 + leap then 1 else if d < 90 + leap then 2
         else if d < 120 + leap then 3 else if d < 151 + leap then 4
         else if d < 181 + leap then 5 else if d < 212 + leap then 6
         else if d < 243 + leap then 7 else if d < 273 + leap then 8
         else if d < 304 + leap then 9 else if d < 334 + leap then 10 else 11)"

definition DateFromTime :: "int \<Rightarrow> int" where
  "DateFromTime t = DayWithinYear t - month_start (InLeapYear t) (MonthFromTime t) + 1"

definition HourFromTime :: "int \<Rightarrow> int" where
  "HourFromTime t = (t div 3600000) mod 24"

definition MinFromTime :: "int \<Rightarrow> int" where
  "MinFromTime t = (t div 60000) mod 60"

definition SecFromTime :: "int \<Rightarrow> int" where
  "SecFromTime t = (t div 1000) mod 60"

definition msFromTime :: "int \<Rightarrow> int" where
  "msFromTime t = t mod 1000"

definition digit_char :: "nat \<Rightarrow> char" where
  "digit_char d = ''0123456789'' ! (d mod 10)"

text \<open>\<open>pad k n\<close>: the decimal digits of \<open>n\<close>, padded with zeros to \<open>k\<close> places.\<close>

fun pad :: "nat \<Rightarrow> nat \<Rightarrow> string" where
  "pad 0 n = []"
| "pad (Suc k) n = pad k (n div 10) @ [digit_char n]"

definition year_string :: "int \<Rightarrow> string" where
  "year_string y =
     (if 0 \<le> y \<and> y \<le> 9999 then pad 4 (nat y)
      else (if y < 0 then ''-'' else ''+'') @ pad 6 (nat \<bar>y\<bar>))"

definition Date_toISOString :: "int \<Rightarrow> string" where
  "Date_toISOString t =
     year_string (YearFromTime t) @ ''-'' @ pad 2 (nat (MonthFromTime t + 1)) @ ''-''
       @ pad 2 (nat (DateFromTime t)) @ ''T'' @ pad 2 (nat (HourFromTime t)) @ '':''
       @ pad 2 (nat (MinFromTime t)) @ '':'' @ pad 2 (nat (SecFromTime t)) @ ''.''
       @ pad 3 (nat (msFromTime t)) @ ''Z''"

text \<open>
  \<^verbatim>\<open>Date.parse\<close> on the ECMAScript date-time string format, in the complete form
  with milliseconds and the UTC designator that \<^verbatim>\<open>toISOString\<close> writes: \<open>None\<close>
  stands for \<^verbatim>\<open>NaN\<close>, an unparseable string.
\<close>

definition digit_value :: "char \<Rightarrow> nat option" where
  "digit_value c = map_of (zip ''0123456789'' [0 ..< 10]) c"

fun read_digits :: "string \<Rightarrow> nat \<Rightarrow> nat option" where
  "read_digits [] acc = Some acc"
| "read_digits (c # cs) acc =
     (case digit_value c of None \<Rightarrow> None | Some d \<Rightarrow> read_digits cs (10 * acc + d))"

definition read_fixed :: "nat \<Rightarrow> string \<Rightarrow> (nat \<times> string) option" where
  "read_fixed k s =
     (if length s < k then None
      else map_option (\<lambda>n. (n, drop k s)) (read_digits (take k s) 0))"

definition expect :: "char \<Rightarrow> string \<Rightarrow> string option" where
  "expect c s = (case s of [] \<Rightarrow> None | x # xs \<Rightarrow> if x = c then Some xs else None)"

definition MakeTime :: "int \<Rightarrow> nat \<Rightarrow> nat \<Rightarrow> nat \<Rightarrow> nat \<Rightarrow> nat \<Rightarrow> nat \<Rightarrow> int option" where
  "MakeTime y mo d h mi sec ms =
     (let leap = (if DaysInYear y = 366 then 1 else 0);
          t = (DayFromYear y + month_start leap (int mo - 1) + (int d - 1)) * msPerDay
                + int h * 3600000 + int mi * 60000 + int sec * 1000 + int ms
      in if 1 \<le> mo \<and> mo \<le> 12 \<and> 1 \<le> d
            \<and> int d \<le> month_start leap (int mo) - month_start leap (int mo - 1)
            \<and> h < 24 \<and> mi < 60 \<and> sec < 60 \<and> \<bar>t\<bar> \<le> 8640000000000000
         then Some t else None)"

definition parse_time :: "int \<Rightarrow> string \<Rightarrow> int option" where
  "parse_time y s0 =
     Option.bind (expect CHR ''-'' s0) (\<lambda>s1.
     Option.bind (read_fixed 2 s1) (\<lambda>(mo, s2).
     Option.bind (expect CHR ''-'' s2) (\<lambda>s3.
     Option.bind (read_fixed 2 s3) (\<lambda>(d, s4).
     Option.bind (expect CHR ''T'' s4) (\<lambda>s5.
     Option.bind (read_fixed 2 s5) (\<lambda>(h, s6).
     Option.bind (expect CHR '':'' s6) (\<lambda>s7.
     Option.bind (read_fixed 2 s7) (\<lambda>(mi, s8).
     Option.bind (expect CHR '':'' s8) (\<lambda>s9.
     Option.bind (read_fixed 2 s9) (\<lambda>(sec, s10).
     Option.bind (expect CHR ''.'' s10) (\<lambda>s11.
     Option.bind (read_fixed 3 s11) (\<lambda>(ms, s12).
     if s12 = ''Z'' then MakeTime y mo d h mi sec ms else None))))))))))))"

definition Date_parse :: "string \<Rightarrow> int option" where
  "Date_parse s =
     (case s of
        [] \<Rightarrow> None
      | c # cs \<Rightarrow>
          if c = CHR ''+'' \<or> c = CHR ''-'' then
            (case read_fixed 6 cs of
               None \<Rightarrow> None
             | Some (y, r) \<Rightarrow>
                 if c = CHR ''-'' \<and> y = 0 then None
                 else parse_time (if c = CHR ''-'' then - int y else int y) r)
          else
            (case read_fixed 4 s of
               None \<Rightarrow> None
             | Some (y, r) \<Rightarrow> parse_time (int y) r))"

section \<open>The payment client and the effects of a handler\<close>

text \<open>
  The objects the Stripe SDK returns, with the fields the handlers read, typed as the
  SDK documents them.
\<close>

record account =
  acct_id :: string
  charges_enabled :: bool
  payouts_enabled :: bool
  details_submitted :: bool

record account_link =
  link_url :: string

record payment_intent =
  pi_id :: string
  client_secret :: string

record login_link =
  login_url :: string

text \<open>
  The body the webhook route hands to the verification. The JSON parser of line 28
  runs on every route before the raw parser of line 31, which skips a body that is
  already parsed and reads the same content type: what reaches the handler is the
  parsed value (\<open>ParsedBody\<close>), not the bytes.
\<close>

datatype req_body = RawBody string | ParsedBody jsval

text \<open>
  The client built by \<^verbatim>\<open>require('stripe')(key)\<close>. Each operation returns the
  SDK's object or throws (\<open>Inl\<close>); what the platform answers is not decided by this
  program, so the operations are parameters. The verification returns the event, the
  value parsed from the signed payload: any JSON value.
\<close>

record stripe_client =
  accounts_create :: "jsval \<Rightarrow> js_error + account"
  accountLinks_create :: "jsval \<Rightarrow> js_error + account_link"
  accounts_retrieve :: "jsval \<Rightarrow> js_error + account"
  paymentIntents_create :: "jsval \<Rightarrow> js_error + payment_intent"
  accounts_createLoginLink :: "jsval \<Rightarrow> js_error + login_link"
  webhooks_constructEvent :: "req_body \<Rightarrow> jsval \<Rightarrow> jsval \<Rightarrow> js_error + jsval"

datatype api_method =
    AccountsCreate
  | AccountLinksCreate
  | AccountsRetrieve
  | PaymentIntentsCreate
  | AccountsCreateLoginLink

text \<open>
  A request sent to the payment platform: the operation, its argument, and whether it
  returned (\<open>True\<close>) or threw.
\<close>

datatype ext_call = Call (api: api_method) (arg: jsval) (returned: bool)

datatype log_arg = LStr string | LVal jsval | LErr js_error

datatype log_line = ConsoleLog "log_arg list" | ConsoleError "log_arg list"

datatype res_body = Json jsval | Text string

record http_response =
  status :: nat
  body :: res_body

text \<open>
  What handling one request does: the response, the console lines in order, and the
  requests sent to the payment platform in order.
\<close>

record outcome =
  response :: http_response
  logs :: "log_line list"
  calls :: "ext_call list"

definition respond :: "nat \<Rightarrow> res_body \<Rightarrow> log_line list \<Rightarrow> ext_call list \<Rightarrow> outcome" where
  "respond code b ls cs = \<lparr>response = \<lparr>status = code, body = b\<rparr>, logs = ls, calls = cs\<rparr>"

text \<open>
  The \<^verbatim>\<open>catch (error)\<close> block shared by the four business handlers:
  \<^verbatim>\<open>console.error(label, error); res.status(500).json({ error: error.message })\<close>.
\<close>

definition catch_500 :: "string \<Rightarrow> js_error \<Rightarrow> log_line list \<Rightarrow> ext_call list \<Rightarrow> outcome" where
  "catch_500 label e ls cs =
     respond 500 (Json (JObj [(''error'', JStr (message e))]))
       (ls @ [ConsoleError [LStr label, LErr e]]) cs"

text \<open>
  The error of reading a member of the variable \<^verbatim>\<open>stripe\<close> while it is
  \<^verbatim>\<open>undefined\<close> (the message of V8).
\<close>

definition read_of_undefined :: "string \<Rightarrow> js_error" where
  "read_of_undefined p =
     TypeError (''Cannot read properties of undefined (reading '' @ [CHR 0x27] @ p @ [CHR 0x27] @ '')'')"

text \<open>Non-ASCII characters of the source's string literals are written as UTF-8 bytes.\<close>

definition check_mark :: string where
  "check_mark = [CHR 0xE2, CHR 0x9C, CHR 0x85]"

definition cross_mark :: string where
  "cross_mark = [CHR 0xE2, CHR 0x9D, CHR 0x8C]"

section \<open>Start-up\<close>

text \<open>
  The environment variables the program reads for the payment client, and the
  initialisation of the variable \<^verbatim>\<open>stripe\<close> (lines 10 to 21): it stays
  \<^verbatim>\<open>undefined\<close> when the key is unset or empty, or when the SDK throws.
\<close>

record environment =
  STRIPE_SECRET_KEY :: "string option"
  STRIPE_WEBHOOK_SECRET :: "string option"

definition env_value :: "string option \<Rightarrow> jsval" where
  "env_value v = (case v of None \<Rightarrow> JUndefined | Some s \<Rightarrow> JStr s)"

definition missing_key :: "stripe_client option \<times> log_line list" where
  "missing_key =
     (None, [ConsoleError [LStr (cross_mark @ '' STRIPE_SECRET_KEY not found in environment variables!'')]])"

definition init_stripe ::
  "(string \<Rightarrow> js_error + stripe_client) \<Rightarrow> environment \<Rightarrow> stripe_client option \<times> log_line list" where
  "init_stripe sdk env =
     (case STRIPE_SECRET_KEY env of
        None \<Rightarrow> missing_key
      | Some key \<Rightarrow>
          if \<not> truthy (JStr key) then missing_key
          else
            (case sdk key of
               Inl e \<Rightarrow>
                 (None, [ConsoleError [LStr (cross_mark @ '' Error initializing Stripe:''), LStr (message e)]])
             | Inr s \<Rightarrow>
                 (Some s, [ConsoleLog [LStr (check_mark @ '' Stripe initialized successfully'')]])))"

section \<open>Route handlers\<close>

subsection \<open>GET /\<close>

text \<open>
  \<^verbatim>\<open>res.json({ status: 'CrowdFuel Backend Running', timestamp: new Date().toISOString() })\<close>
\<close>

definition health :: "js_runtime \<Rightarrow> outcome" where
  "health rt =
     respond 200
       (Json (JObj [(''status'', JStr ''CrowdFuel Backend Running''),
                    (''timestamp'', JStr (Date_toISOString (Date_now rt)))])) [] []"

subsection \<open>POST /create-connect-account\<close>

definition account_params :: "jsval \<Rightarrow> jsval \<Rightarrow> jsval" where
  "account_params country email =
     JObj [(''type'', JStr ''express''),
           (''country'', country),
           (''email'', email),
           (''capabilities'',
              JObj [(''card_payments'', JObj [(''requested'', JBool True)]),
                    (''transfers'', JObj [(''requested'', JBool True)])]),
           (''business_type'', JStr ''individual'')]"

definition account_link_params :: "string \<Rightarrow> string \<Rightarrow> jsval" where
  "account_link_params account_id band =
     JObj [(''account'', JStr account_id),
           (''refresh_url'', JStr ''https://crowdfuel-86c2b.web.app/connect/refresh.html''),
           (''return_url'',
              JStr (''https://crowdfuel-86c2b.web.app/connect/return.html?accountId='' @ account_id
                     @ ''&bandId='' @ band)),
           (''type'', JStr ''account_onboarding'')]"

definition catch_connect :: "js_error \<Rightarrow> log_line list \<Rightarrow> ext_call list \<Rightarrow> outcome" where
  "catch_connect = catch_500 ''Error creating Connect account:''"

text \<open>
  Lines 46 to 84. The two template literals convert \<^verbatim>\<open>bandId\<close> to a string; the
  first conversion, in the \<^verbatim>\<open>console.log\<close> after the account is created, is the
  one that can throw.
\<close>

definition create_connect_account :: "js_runtime \<Rightarrow> stripe_client option \<Rightarrow> jsval \<Rightarrow> outcome" where
  "create_connect_account rt stripe req_body =
     (let bandId = get_prop req_body ''bandId'';
          email = get_prop req_body ''email'';
          country = with_default (get_prop req_body ''country'') (JStr ''US'')
      in if \<not> truthy bandId \<or> \<not> truthy email then
           respond 400 (Json (JObj [(''error'', JStr ''bandId and email are required'')])) [] []
         else
           (case stripe of
              None \<Rightarrow> catch_connect (read_of_undefined ''accounts'') [] []
            | Some s \<Rightarrow>
                let params = account_params country email in
                (case accounts_create s params of
                   Inl e \<Rightarrow> catch_connect e [] [Call AccountsCreate params False]
                 | Inr account \<Rightarrow>
                     (case ToString rt bandId of
                        Inl e \<Rightarrow> catch_connect e [] [Call AccountsCreate params True]
                      | Inr band \<Rightarrow>
                          let created =
                                ConsoleLog [LStr (check_mark @ '' Created Stripe account ''
                                                   @ acct_id account @ '' for band '' @ band)];
                              link_params = account_link_params (acct_id account) band
                          in (case accountLinks_create s link_params of
                                Inl e \<Rightarrow>
                                  catch_connect e [created]
                                    [Call AccountsCreate params True,
                                     Call AccountLinksCreate link_params False]
                              | Inr accountLink \<Rightarrow>
                                  respond 200
                                    (Json (JObj [(''accountId'', JStr (acct_id account)),
                                                 (''onboardingUrl'', JStr (link_url accountLink))]))
                                    [created]
                                    [Call AccountsCreate params True,
                                     Call AccountLinksCreate link_params True])))))"

subsection \<open>POST /connect-account-status\<close>

definition connect_account_status :: "stripe_client option \<Rightarrow> jsval \<Rightarrow> outcome" where
  "connect_account_status stripe req_body =
     (let accountId = get_prop req_body ''accountId''
      in if \<not> truthy accountId then
           respond 400 (Json (JObj [(''error'', JStr ''accountId is required'')])) [] []
         else
           (case stripe of
              None \<Rightarrow> catch_500 ''Error checking account status:'' (read_of_undefined ''accounts'') [] []
            | Some s \<Rightarrow>
                (case accounts_retrieve s accountId of
                   Inl e \<Rightarrow>
                     catch_500 ''Error checking account status:'' e []
                       [Call AccountsRetrieve accountId False]
                 | Inr account \<Rightarrow>
                     respond 200
                       (Json (JObj [(''chargesEnabled'', JBool (charges_enabled account)),
                                    (''payoutsEnabled'', JBool (payouts_enabled account)),
                                    (''detailsSubmitted'', JBool (details_submitted account))]))
                       [] [Call AccountsRetrieve accountId True])))"

subsection \<open>POST /create-payment-intent\<close>

definition payment_intent_params :: "jsval \<Rightarrow> jsval \<Rightarrow> jsnum \<Rightarrow> jsval \<Rightarrow> jsval \<Rightarrow> jsval" where
  "payment_intent_params amount currency platformFee bandStripeAccountId description =
     JObj [(''amount'', amount),
           (''currency'', currency),
           (''application_fee_amount'', JNum platformFee),
           (''transfer_data'', JObj [(''destination'', bandStripeAccountId)]),
           (''description'', description),
           (''automatic_payment_methods'', JObj [(''enabled'', JBool True)]),
           (''metadata'',
              JObj [(''bandStripeAccountId'', bandStripeAccountId),
                    (''platformFee'', JNum platformFee)])]"

definition catch_intent :: "js_error \<Rightarrow> log_line list \<Rightarrow> ext_call list \<Rightarrow> outcome" where
  "catch_intent = catch_500 ''Error creating payment intent:''"

text \<open>
  Lines 117 to 156. \<^verbatim>\<open>amount * 0.05\<close> and \<^verbatim>\<open>amount - platformFee\<close> convert
  \<^verbatim>\<open>amount\<close> to a number, and the conversion of an object can throw.
\<close>

definition create_payment_intent :: "js_runtime \<Rightarrow> stripe_client option \<Rightarrow> jsval \<Rightarrow> outcome" where
  "create_payment_intent rt stripe req_body =
     (let amount = get_prop req_body ''amount'';
          currency = with_default (get_prop req_body ''currency'') (JStr ''usd'');
          bandStripeAccountId = get_prop req_body ''bandStripeAccountId'';
          description = get_prop req_body ''description''
      in if \<not> truthy amount \<or> \<not> truthy bandStripeAccountId then
           respond 400 (Json (JObj [(''error'', JStr ''amount and bandStripeAccountId are required'')])) [] []
         else
           (case ToNumber rt amount of
              Inl e \<Rightarrow> catch_intent e [] []
            | Inr n \<Rightarrow>
                let platformFee = Math_round (js_mul n (Fin c005)) in
                (case stripe of
                   None \<Rightarrow> catch_intent (read_of_undefined ''paymentIntents'') [] []
                 | Some s \<Rightarrow>
                     let params = payment_intent_params amount currency platformFee
                                    bandStripeAccountId description
                     in (case paymentIntents_create s params of
                           Inl e \<Rightarrow> catch_intent e [] [Call PaymentIntentsCreate params False]
                         | Inr paymentIntent \<Rightarrow>
                             (case ToNumber rt amount of
                                Inl e \<Rightarrow> catch_intent e [] [Call PaymentIntentsCreate params True]
                              | Inr m \<Rightarrow>
                                  respond 200
                                    (Json (JObj [(''clientSecret'', JStr (client_secret paymentIntent)),
                                                 (''paymentIntentId'', JStr (pi_id paymentIntent)),
                                                 (''platformFee'', JNum platformFee),
                                                 (''bandAmount'', JNum (js_sub m platformFee))]))
                                    [] [Call PaymentIntentsCreate params True])))))"

subsection \<open>POST /payout-dashboard-link\<close>

definition payout_dashboard_link :: "stripe_client option \<Rightarrow> jsval \<Rightarrow> outcome" where
  "payout_dashboard_link stripe req_body =
     (let accountId = get_prop req_body ''accountId''
      in if \<not> truthy accountId then
           respond 400 (Json (JObj [(''error'', JStr ''accountId is required'')])) [] []
         else
           (case stripe of
              None \<Rightarrow> catch_500 ''Error creating login link:'' (read_of_undefined ''accounts'') [] []
            | Some s \<Rightarrow>
                (case accounts_createLoginLink s accountId of
                   Inl e \<Rightarrow>
                     catch_500 ''Error creating login link:'' e []
                       [Call AccountsCreateLoginLink accountId False]
                 | Inr loginLink \<Rightarrow>
                     respond 200 (Json (JObj [(''url'', JStr (login_url loginLink))]))
                       [] [Call AccountsCreateLoginLink accountId True])))"

subsection \<open>POST /webhook\<close>

text \<open>
  A member expression \<^verbatim>\<open>x.p\<close>: reading a property of \<^verbatim>\<open>undefined\<close> or \<^verbatim>\<open>null\<close>
  throws a TypeError (the messages of V8). The optional chain \<^verbatim>\<open>x?.p\<close> does not.
\<close>

definition read_of_null :: "string \<Rightarrow> js_error" where
  "read_of_null p =
     TypeError (''Cannot read properties of null (reading '' @ [CHR 0x27] @ p @ [CHR 0x27] @ '')'')"

fun member :: "jsval \<Rightarrow> string \<Rightarrow> js_error + jsval" where
  "member JUndefined p = Inl (read_of_undefined p)"
| "member JNull p = Inl (read_of_null p)"
| "member v p = Inr (get_prop v p)"

definition optional_member :: "jsval \<Rightarrow> string \<Rightarrow> jsval" where
  "optional_member v k = (if v = JUndefined \<or> v = JNull then JUndefined else get_prop v k)"

text \<open>\<^verbatim>\<open>event.data.object\<close>, the first statement of each of the five named branches.\<close>

definition event_object :: "jsval \<Rightarrow> js_error + jsval" where
  "event_object ev = (case member ev ''data'' of Inl e \<Rightarrow> Inl e | Inr d \<Rightarrow> member d ''object'')"

text \<open>
  A run of statements \<^verbatim>\<open>console.log(label, obj.p)\<close>: the lines written, and the error
  that stopped the run, if one was thrown.
\<close>

fun log_fields :: "jsval \<Rightarrow> (string \<times> string) list \<Rightarrow> log_line list \<times> js_error option" where
  "log_fields obj [] = ([], None)"
| "log_fields obj ((label, p) # rest) =
     (case member obj p of
        Inl e \<Rightarrow> ([], Some e)
      | Inr v \<Rightarrow> (ConsoleLog [LStr label, LVal v] # fst (log_fields obj rest),
                  snd (log_fields obj rest)))"

definition log_object :: "jsval \<Rightarrow> (string \<times> string) list \<Rightarrow> log_line list \<times> js_error option" where
  "log_object ev props =
     (case event_object ev of Inl e \<Rightarrow> ([], Some e) | Inr obj \<Rightarrow> log_fields obj props)"

text \<open>
  The \<^verbatim>\<open>switch (event.type)\<close> of lines 200 to 235, which stands outside the
  \<^verbatim>\<open>try\<close>: the console lines written, and the error thrown out of the handler, if
  any. The case labels are compared with \<^verbatim>\<open>===\<close>; the template literal of the
  default branch converts \<^verbatim>\<open>event.type\<close> to a string.
\<close>

definition dispatch_event :: "js_runtime \<Rightarrow> jsval \<Rightarrow> log_line list \<times> js_error option" where
  "dispatch_event rt ev =
     (case member ev ''type'' of
        Inl e \<Rightarrow> ([], Some e)
      | Inr ty \<Rightarrow>
          if ty = JStr ''payment_intent.succeeded'' then
            (case log_object ev [(''PaymentIntent succeeded:'', ''id''),
                                 (''Platform fee:'', ''application_fee_amount'')] of
               (ls, Some e) \<Rightarrow> (ls, Some e)
             | (ls, None) \<Rightarrow>
                 (case event_object ev of
                    Inl e \<Rightarrow> (ls, Some e)
                  | Inr obj \<Rightarrow>
                      (case member obj ''transfer_data'' of
                         Inl e \<Rightarrow> (ls, Some e)
                       | Inr td \<Rightarrow>
                           (ls @ [ConsoleLog [LStr ''Band account:'',
                                              LVal (optional_member td ''destination'')]],
                            None))))
          else if ty = JStr ''payment_intent.payment_failed'' then
            log_object ev [(''PaymentIntent failed:'', ''id'')]
          else if ty = JStr ''account.updated'' then
            log_object ev [(''Account updated:'', ''id''),
                           (''Charges enabled:'', ''charges_enabled''),
                           (''Payouts enabled:'', ''payouts_enabled'')]
          else if ty = JStr ''transfer.created'' then
            log_object ev [(''Transfer created:'', ''id''),
                           (''Amount:'', ''amount''),
                           (''Destination:'', ''destination'')]
          else if ty = JStr ''payout.paid'' then
            log_object ev [(''Payout completed:'', ''id''), (''Amount:'', ''amount'')]
          else
            (case ToString rt ty of
               Inl e \<Rightarrow> ([], Some e)
             | Inr kind \<Rightarrow> ([ConsoleLog [LStr (''Unhandled event type '' @ kind)]], None)))"


text \<open>
  Lines 192 to 197: the verification runs inside \<^verbatim>\<open>try\<close>, so reading
  \<^verbatim>\<open>stripe.webhooks\<close> of an uninitialised client is caught like a failed
  verification. \<open>Inl\<close> is the caught error.
\<close>

definition verify_event ::
  "environment \<Rightarrow> stripe_client option \<Rightarrow> req_body \<Rightarrow> jsval \<Rightarrow> js_error + jsval" where
  "verify_event env stripe payload sig =
     (case stripe of
        None \<Rightarrow> Inl (read_of_undefined ''webhooks'')
      | Some s \<Rightarrow> webhooks_constructEvent s payload sig (env_value (STRIPE_WEBHOOK_SECRET env)))"

text \<open>
  How the handling of a request ends: the handler answers, or an error is thrown out
  of it after the console lines given and the handler sends no response.
\<close>

datatype completion = Answered outcome | Uncaught js_error "log_line list"

definition webhook ::
  "js_runtime \<Rightarrow> environment \<Rightarrow> stripe_client option \<Rightarrow> req_body \<Rightarrow> jsval \<Rightarrow> completion" where
  "webhook rt env stripe payload sig =
     (case verify_event env stripe payload sig of
        Inl err \<Rightarrow>
          Answered
            (respond 400 (Text (''Webhook Error: '' @ message err))
               [ConsoleError [LStr ''Webhook signature verification failed:'', LStr (message err)]] [])
      | Inr ev \<Rightarrow>
          (case dispatch_event rt ev of
             (ls, Some e) \<Rightarrow> Uncaught e ls
           | (ls, None) \<Rightarrow>
               Answered (respond 200 (Json (JObj [(''received'', JBool True)])) ls [])))"

section \<open>The application\<close>

text \<open>
  A request as it reaches a route handler, after Express matched the route and the
  cors and body-parser middleware ran: body-parser has set \<^verbatim>\<open>req.body\<close> to the parsed
  JSON value (the empty object when there was nothing to parse). The webhook request
  carries its body and the \<^verbatim>\<open>stripe-signature\<close> header.
\<close>

datatype request =
    GetHealth
  | PostCreateConnectAccount jsval
  | PostConnectAccountStatus jsval
  | PostCreatePaymentIntent jsval
  | PostPayoutDashboardLink jsval
  | PostWebhook req_body jsval

fun handle :: "js_runtime \<Rightarrow> environment \<Rightarrow> stripe_client option \<Rightarrow> request \<Rightarrow> completion" where
  "handle rt env stripe GetHealth = Answered (health rt)"
| "handle rt env stripe (PostCreateConnectAccount b) = Answered (create_connect_account rt stripe b)"
| "handle rt env stripe (PostConnectAccountStatus b) = Answered (connect_account_status stripe b)"
| "handle rt env stripe (PostCreatePaymentIntent b) = Answered (create_payment_intent rt stripe b)"
| "handle rt env stripe (PostPayoutDashboardLink b) = Answered (payout_dashboard_link stripe b)"
| "handle rt env stripe (PostWebhook payload sig) = webhook rt env stripe payload sig"

text \<open>The process: the client is initialised once from the environment, then requests are served.\<close>

definition server ::
  "(string \<Rightarrow> js_error + stripe_client) \<Rightarrow> js_runtime \<Rightarrow> environment \<Rightarrow> request \<Rightarrow> completion" where
  "server sdk rt env req = handle rt env (fst (init_stripe sdk env)) req"

fun is_business :: "request \<Rightarrow> bool" where
  "is_business GetHealth = False"
| "is_business r = True"

section \<open>Test doubles\<close>

text \<open>
  An engine and three payment clients for the concrete scenarios: a client whose every
  operation succeeds (the stub of the end-to-end scenarios; its verification accepts
  one signature under the test secret and returns the parsed body as the event), one
  whose every operation throws, and one that creates the account and then fails to
  create the account link.
\<close>

definition test_runtime :: js_runtime where
  "test_runtime =
     \<lparr>StringToNumber = (\<lambda>s. NaN), NumberToString = (\<lambda>n. ''NaN''), Date_now = 1793699696789\<rparr>"

definition stub_account :: account where
  "stub_account =
     \<lparr>acct_id = ''acct_1'', charges_enabled = False, payouts_enabled = False,
      details_submitted = False\<rparr>"

definition stub_client :: stripe_client where
  "stub_client =
     \<lparr>accounts_create = (\<lambda>p. Inr stub_account),
      accountLinks_create = (\<lambda>p. Inr \<lparr>link_url = ''https://example/link''\<rparr>),
      accounts_retrieve = (\<lambda>p. Inr stub_account),
      paymentIntents_create = (\<lambda>p. Inr \<lparr>pi_id = ''pi_1'', client_secret = ''pi_1_secret''\<rparr>),
      accounts_createLoginLink = (\<lambda>p. Inr \<lparr>login_url = ''https://example/login''\<rparr>),
      webhooks_constructEvent =
        (\<lambda>payload sig secret.
           case payload of
             ParsedBody ev \<Rightarrow>
               if sig = JStr ''t=1,v1=ok'' \<and> secret = JStr ''whsec_test'' then Inr ev
               else Inl (ExternalError ''No signatures found matching the expected signature for payload'')
           | RawBody bytes \<Rightarrow>
               Inl (ExternalError ''No signatures found matching the expected signature for payload''))\<rparr>"

definition failing_client :: stripe_client where
  "failing_client =
     \<lparr>accounts_create = (\<lambda>p. Inl (ExternalError ''api error'')),
      accountLinks_create = (\<lambda>p. Inl (ExternalError ''api error'')),
      accounts_retrieve = (\<lambda>p. Inl (ExternalError ''api error'')),
      paymentIntents_create = (\<lambda>p. Inl (ExternalError ''api error'')),
      accounts_createLoginLink = (\<lambda>p. Inl (ExternalError ''api error'')),
      webhooks_constructEvent =
        (\<lambda>payload sig secret. Inl (ExternalError ''No signatures found matching the expected signature for payload''))\<rparr>"

definition link_failing_client :: stripe_client where
  "link_failing_client =
     stub_client\<lparr>accountLinks_create := (\<lambda>p. Inl (ExternalError ''api error''))\<rparr>"

definition test_env :: environment where
  "test_env = \<lparr>STRIPE_SECRET_KEY = Some ''sk_test'', STRIPE_WEBHOOK_SECRET = Some ''whsec_test''\<rparr>"

text \<open>Request bodies: the two end-to-end scenarios, a body whose fields are all falsy, and a body with every field.\<close>

definition connect_body :: jsval where
  "connect_body = JObj [(''bandId'', JStr ''b1''), (''email'', JStr ''e@x.com'')]"

definition intent_body :: jsval where
  "intent_body = JObj [(''amount'', JNum (Fin 10000)), (''bandStripeAccountId'', JStr ''acct_1'')]"

definition falsy_body :: jsval where
  "falsy_body =
     JObj [(''amount'', JNum (Fin 0)), (''bandStripeAccountId'', JStr []), (''bandId'', JStr []),
           (''email'', JStr []), (''accountId'', JStr [])]"

text \<open>
  Webhook events: one of a kind the switch does not name, a payout event, and an event
  of a named kind that carries no \<^verbatim>\<open>data\<close>. A request whose amount is above \<open>2\<^sup>5\<^sup>3\<close>.
\<close>

definition unnamed_event :: jsval where
  "unnamed_event =
     JObj [(''type'', JStr ''customer.created''),
           (''data'', JObj [(''object'', JObj [(''id'', JStr ''cus_1'')])])]"




definition keyless_env :: environment where
  "keyless_env = \<lparr>STRIPE_SECRET_KEY = None, STRIPE_WEBHOOK_SECRET = Some ''whsec_test''\<rparr>"

definition full_body :: jsval where
  "full_body =
     JObj [(''bandId'', JStr ''b1''), (''email'', JStr ''e@x.com''), (''accountId'', JStr ''acct_1''),
           (''amount'', JNum (Fin 10000)), (''bandStripeAccountId'', JStr ''acct_1'')]"

section \<open>Binary64 rounding of the fee\<close>

lemma round_half_even_of_int: "round_half_even (of_int z) = z"
  by (simp add: round_half_even_def)

lemma round_half_even_ge: "of_int n \<le> y \<Longrightarrow> n \<le> round_half_even y"
  unfolding round_half_even_def Let_def by (auto simp: le_floor_iff) linarith+

lemma round_half_even_le: "y \<le> of_int n \<Longrightarrow> round_half_even y \<le> n"
  unfolding round_half_even_def Let_def by (auto simp: floor_le_iff)

lemma floor_log2_less:
  assumes "0 < x" "x < 2 ^ k"
  shows "floor_log2 x < int k"
proof (cases "1 \<le> x")
  case True
  have "\<lfloor>x\<rfloor> < 2 ^ k" using assms(2) by (simp add: floor_less_iff)
  then have "bitlen \<lfloor>x\<rfloor> \<le> int k" by (simp add: bitlen_le_iff_power)
  then show ?thesis using True by (simp add: floor_log2_def)
next
  case False
  then have "1 < 1 / x" using assms(1) by simp
  then have "1 < \<lceil>1 / x\<rceil>" by (simp add: less_ceiling_iff)
  then have "1 \<le> bitlen (\<lceil>1 / x\<rceil> - 1)" by (simp add: bitlen_ge_iff_power)
  then show ?thesis using False by (simp add: floor_log2_def)
qed

lemma pow2_neg: "e \<le> 0 \<Longrightarrow> pow2 e = 1 / 2 ^ nat (- e)"
  by (auto simp: pow2_def)

lemma fl64_grid:
  assumes "0 < x" "x < 2 ^ 46"
  shows "\<exists>r. fl64 x = Fin r
            \<and> (\<forall>n::int. of_int n / 64 \<le> x \<longrightarrow> of_int n / 64 \<le> r)
            \<and> (\<forall>n::int. x \<le> of_int n / 64 \<longrightarrow> r \<le> of_int n / 64)"
proof -
  define e where "e = max (floor_log2 x) (- 1022)"
  define j where "j = nat (52 - e) - 6"
  define k where "k = round_half_even (x * 2 ^ (j + 6))"
  define r where "r = of_int k / (2::real) ^ (j + 6)"
  have e45: "e \<le> 45" using floor_log2_less[OF assms] by (simp add: e_def)
  then have j: "nat (52 - e) = j + 6" by (simp add: j_def)
  have u: "pow2 (e - 52) = 1 / 2 ^ (j + 6)"
    using e45 j by (simp add: pow2_neg)
  have lo: "of_int n / 64 \<le> r" if "of_int n / 64 \<le> x" for n :: int
  proof -
    have "of_int n / 64 * 2 ^ (j + 6) \<le> x * 2 ^ (j + 6)" using that by simp
    then have "of_int (n * 2 ^ j) \<le> x * 2 ^ (j + 6)" by (simp add: power_add)
    then have "n * 2 ^ j \<le> k" unfolding k_def by (rule round_half_even_ge)
    then have "(of_int (n * 2 ^ j) :: real) \<le> of_int k" by linarith
    then have "of_int n * 2 ^ j / 2 ^ (j + 6) \<le> r"
      by (simp add: r_def divide_right_mono)
    then show ?thesis by (simp add: power_add)
  qed
  have hi: "r \<le> of_int n / 64" if "x \<le> of_int n / 64" for n :: int
  proof -
    have "x * 2 ^ (j + 6) \<le> of_int n / 64 * 2 ^ (j + 6)" using that by simp
    then have "x * 2 ^ (j + 6) \<le> of_int (n * 2 ^ j)" by (simp add: power_add)
    then have "k \<le> n * 2 ^ j" unfolding k_def by (rule round_half_even_le)
    then have "(of_int k :: real) \<le> of_int (n * 2 ^ j)" by linarith
    then have "r \<le> of_int n * 2 ^ j / 2 ^ (j + 6)"
      by (simp add: r_def divide_right_mono)
    then show ?thesis by (simp add: power_add)
  qed
  have "x \<le> of_int (64 * 2 ^ 46) / 64" using assms(2) by simp
  then have "r \<le> of_int (64 * 2 ^ 46) / 64" by (rule hi)
  then have "r \<le> 2 ^ 46" by simp
  moreover have "(2::real) ^ 46 < pow2 1024" by (simp add: pow2_def)
  ultimately have nov: "\<not> pow2 1024 \<le> r" by linarith
  have "fl64 x = Fin r"
    using assms(1) nov unfolding fl64_def Let_def
    by (simp add: e_def[symmetric] u r_def k_def)
  then show ?thesis using lo hi by blast
qed


lemma fl64_of_int:
  assumes "0 \<le> n" "n < 2 ^ 53"
  shows "fl64 (of_int n) = Fin (of_int n)"
proof (cases "n = 0")
  case True
  then show ?thesis by (simp add: fl64_def)
next
  case False
  define x where "x = real_of_int n"
  define e where "e = max (floor_log2 x) (- 1022)"
  define j where "j = nat (52 - e)"
  have pos: "0 < x" using False assms(1) by (simp add: x_def)
  have x53: "x < 2 ^ 53" unfolding x_def using assms(2) by (metis of_int_less_numeral_power_cancel_iff)
  from floor_log2_less[OF pos this] have e52: "e \<le> 52" by (simp add: e_def)
  then have u: "pow2 (e - 52) = 1 / 2 ^ j" by (simp add: pow2_neg j_def)
  have "x * 2 ^ j = of_int (n * 2 ^ j)" by (simp add: x_def)
  then have k: "round_half_even (x * 2 ^ j) = n * 2 ^ j"
    by (simp only: round_half_even_of_int)
  have "x < pow2 1024" using x53 by (simp add: pow2_def)
  then have nov: "\<not> pow2 1024 \<le> x" by linarith
  have r: "real_of_int (n * 2 ^ j) * (1 / 2 ^ j) = x" by (simp add: x_def)
  have "fl64 x = Fin x"
    using pos nov unfolding fl64_def Let_def
    by (simp add: e_def[symmetric] u k del: of_int_mult of_int_power) (simp add: x_def)
  then show ?thesis by (simp add: x_def)
qed

lemma c005_times:
  "real_of_int a * c005 = of_int a / 20 + of_int a / 360287970189639680"
  by (simp add: c005_def field_simps)

lemma half_up_div: "\<lfloor>real_of_int a / 20 + 1 / 2\<rfloor> = (a + 10) div 20"
proof -
  have "real_of_int a / 20 + 1 / 2 = real_of_int (a + 10) / real_of_int 20" by simp
  then show ?thesis by (simp only: floor_divide_of_int_eq)
qed

lemma fee_exact:
  assumes "0 < a" "a < 2 ^ 50"
  shows "Math_round (js_mul (Fin (of_int a)) (Fin c005)) = Fin (of_int ((a + 10) div 20))"
proof -
  define x where "x = real_of_int a * c005"
  define q where "q = a div 20"
  define m where "m = a mod 20"
  have a: "a = 20 * q + m" and m: "0 \<le> m" "m < 20" by (simp_all add: q_def m_def)
  have ra: "real_of_int a = 20 * of_int q + of_int m" using a by simp
  have "real_of_int a < 2 ^ 50" using assms(2) by (metis of_int_less_numeral_power_cancel_iff)
  then have err: "real_of_int a / 360287970189639680 < 1 / 320" by simp
  have err0: "0 < real_of_int a / 360287970189639680" using assms(1) by simp
  have "real_of_int a / 20 = of_int q + of_int m / 20" using ra by simp
  then have xeq: "x = of_int q + of_int m / 20 + of_int a / 360287970189639680"
    unfolding x_def c005_times by (simp only:)
  have x0: "0 < x" using assms(1) by (simp add: x_def c005_def)
  have "x < of_int a / 20 + 1 / 320" unfolding x_def c005_times using err by simp
  also have "\<dots> < 2 ^ 46" using \<open>real_of_int a < 2 ^ 50\<close> by simp
  finally have x46: "x < 2 ^ 46" .
  from fl64_grid[OF x0 x46] obtain r where r: "fl64 x = Fin r"
    and lo: "\<And>n::int. of_int n / 64 \<le> x \<Longrightarrow> of_int n / 64 \<le> r"
    and hi: "\<And>n::int. x \<le> of_int n / 64 \<Longrightarrow> r \<le> of_int n / 64"
    by blast
  have mr: "0 \<le> real_of_int m" "real_of_int m < 20" using m by simp_all
  have fl: "\<lfloor>r + 1 / 2\<rfloor> = (a + 10) div 20"
  proof (cases "m < 10")
    case True
    then have m9: "real_of_int m \<le> 9" by simp
    have "of_int (64 * q) / 64 \<le> x" using xeq err0 mr by simp
    then have "of_int (64 * q) / 64 \<le> r" by (rule lo)
    then have l: "of_int q \<le> r" by simp
    have "x \<le> of_int (64 * q + 29) / 64" using xeq err m9 by simp
    then have "r \<le> of_int (64 * q + 29) / 64" by (rule hi)
    then have h: "r < of_int q + 1 / 2" by simp
    have "\<lfloor>r + 1 / 2\<rfloor> = q" using l h by (simp add: floor_eq_iff)
    moreover have "(a + 10) div 20 = q" using a m True by simp
    ultimately show ?thesis by simp
  next
    case False
    then have m10: "10 \<le> real_of_int m" by simp
    have "of_int (64 * q + 32) / 64 \<le> x" using xeq err0 m10 by simp
    then have "of_int (64 * q + 32) / 64 \<le> r" by (rule lo)
    then have l: "of_int q + 1 / 2 \<le> r" by simp
    have "real_of_int m \<le> 19" using m by simp
    then have "x \<le> of_int (64 * q + 64) / 64" using xeq err by simp
    then have "r \<le> of_int (64 * q + 64) / 64" by (rule hi)
    then have h: "r \<le> of_int q + 1" by simp
    have "\<lfloor>r + 1 / 2\<rfloor> = q + 1" using l h by (simp add: floor_eq_iff)
    moreover have "(a + 10) div 20 = q + 1" using a m False by simp
    ultimately show ?thesis by simp
  qed
  show ?thesis using r fl by (simp add: x_def)
qed

lemma round_fee: "round (real_of_int a * 0.05) = (a + 10) div 20"
proof -
  have "real_of_int a * 0.05 = real_of_int a / 20" by simp
  then show ?thesis by (simp only: round_def half_up_div)
qed

lemma band_amount_exact:
  assumes "0 < a" "a < 2 ^ 50"
  shows "js_sub (Fin (of_int a)) (Fin (of_int ((a + 10) div 20))) = Fin (of_int (a - (a + 10) div 20))"
proof -
  have "0 \<le> a - (a + 10) div 20" using assms(1) by linarith
  moreover have "(2::int) ^ 50 < 2 ^ 53" by simp
  then have "a - (a + 10) div 20 < 2 ^ 53" using assms by linarith
  ultimately have "fl64 (of_int (a - (a + 10) div 20)) = Fin (of_int (a - (a + 10) div 20))"
    by (rule fl64_of_int)
  then show ?thesis by simp
qed





lemma pow2_nat: "pow2 (int k) = 2 ^ k"
  by (simp add: pow2_def)








lemma fl64_neg:
  assumes "0 < y" "fl64 y = Fin r"
  shows "fl64 (- y) = Fin (- r)"
  using assms unfolding fl64_def Let_def by (simp split: if_splits)




lemma is_binary64_of_int: "\<bar>a\<bar> < 2 ^ 53 \<Longrightarrow> is_binary64 (of_int a)"
proof (cases "0 \<le> a")
  case True
  assume "\<bar>a\<bar> < 2 ^ 53"
  then show ?thesis using True by (simp add: is_binary64_def fl64_of_int)
next
  case False
  assume a: "\<bar>a\<bar> < 2 ^ 53"
  have p: "fl64 (of_int (- a)) = Fin (of_int (- a))" using False a by (intro fl64_of_int) simp_all
  have "0 < real_of_int (- a)" using False by simp
  from fl64_neg[OF this p] show ?thesis by (simp add: is_binary64_def)
qed

text \<open>
  Beyond the range of the fee lemma the product drifts: at this amount, above \<open>2\<^sup>5\<^sup>2\<close>,
  \<^verbatim>\<open>Math.round(amount * 0.05)\<close> is one more than the rounded exact product.
\<close>

lemma fee_drift_beyond_range:
  "Math_round (js_mul (Fin 8150508910406329) (Fin c005)) = Fin 407525445520317"
  by code_simp

lemma exact_fee_beyond_range: "round (real_of_int 8150508910406329 * 0.05) = 407525445520316"
  using round_fee [of 8150508910406329] by simp


section \<open>The timestamp of the health check\<close>

lemma int_div_bounds:
  fixes z c :: int
  assumes "0 < c"
  shows "c * (z div c) \<le> z" "z < c * (z div c) + c"
proof -
  have "z = c * (z div c) + z mod c" by simp
  moreover have "0 \<le> z mod c" "z mod c < c" using assms by simp_all
  ultimately show "c * (z div c) \<le> z" "z < c * (z div c) + c" by linarith+
qed

lemma DayFromYear_deviation:
  "146097 * (y - 1970) - 506 \<le> 400 * DayFromYear y"
  "400 * DayFromYear y \<le> 146097 * (y - 1970) + 589"
proof -
  define a where "a = (y - 1969) div 4"
  define b where "b = (y - 1901) div 100"
  define c where "c = (y - 1601) div 400"
  have d: "DayFromYear y = 365 * (y - 1970) + a - b + c"
    by (simp add: DayFromYear_def a_def b_def c_def)
  have f: "4 * a \<le> y - 1969" "y - 1969 < 4 * a + 4" "100 * b \<le> y - 1901" "y - 1901 < 100 * b + 100"
    "400 * c \<le> y - 1601" "y - 1601 < 400 * c + 400"
    unfolding a_def b_def c_def by (simp_all add: int_div_bounds)
  have g: "100 * y - 197200 \<le> 400 * a" "400 * a \<le> 100 * y - 196900"
    "4 * y - 8000 \<le> 400 * b" "400 * b \<le> 4 * y - 7604"
    "y - 2000 \<le> 400 * c" "400 * c \<le> y - 1601"
    using f by simp_all
  show "146097 * (y - 1970) - 506 \<le> 400 * DayFromYear y"
    unfolding d using g by simp
  show "400 * DayFromYear y \<le> 146097 * (y - 1970) + 589"
    unfolding d using g by simp
qed

lemma div_step:
  fixes z c :: int
  assumes "0 < c"
  shows "(z + 1) div c = z div c + (if (z + 1) mod c = 0 then 1 else 0)"
proof -
  define q where "q = z div c"
  define r where "r = z mod c"
  have z: "z = c * q + r" and r: "0 \<le> r" "r < c" using assms by (simp_all add: q_def r_def)
  show ?thesis
  proof (cases "r + 1 < c")
    case True
    have e: "z + 1 = c * q + (r + 1)" using z by simp
    have "(z + 1) div c = q" using e r True by (intro int_div_pos_eq[of _ _ _ "r + 1"]) auto
    moreover have "(z + 1) mod c = r + 1" using e r True by (intro int_mod_pos_eq[of _ _ q]) auto
    ultimately show ?thesis using r by (simp add: q_def)
  next
    case False
    then have e: "z + 1 = c * (q + 1) + 0" using z r by (simp add: algebra_simps)
    have "(z + 1) div c = q + 1" using e assms by (intro int_div_pos_eq[of _ _ _ 0]) auto
    moreover have "(z + 1) mod c = 0" using e assms by (intro int_mod_pos_eq[of _ _ "q + 1"]) auto
    ultimately show ?thesis by (simp add: q_def)
  qed
qed

lemma mod_shift:
  fixes y :: int
  shows "(y - 1969 + 1) mod 4 = y mod 4" "(y - 1901 + 1) mod 100 = y mod 100"
    "(y - 1601 + 1) mod 400 = y mod 400"
proof -
  have "y - 1969 + 1 = y + (- 492) * 4" "y - 1901 + 1 = y + (- 19) * 100"
    "y - 1601 + 1 = y + (- 4) * 400" by simp_all
  then show "(y - 1969 + 1) mod 4 = y mod 4" "(y - 1901 + 1) mod 100 = y mod 100"
    "(y - 1601 + 1) mod 400 = y mod 400"
    by (simp_all only: mod_mult_self1)
qed

lemma mod_chain:
  fixes y :: int
  shows "y mod 400 = 0 \<Longrightarrow> y mod 100 = 0" "y mod 100 = 0 \<Longrightarrow> y mod 4 = 0"
proof -
  have "y mod 400 mod 100 = y mod 100" by (rule mod_mod_cancel) simp
  then show "y mod 400 = 0 \<Longrightarrow> y mod 100 = 0" by simp
  have "y mod 100 mod 4 = y mod 4" by (rule mod_mod_cancel) simp
  then show "y mod 100 = 0 \<Longrightarrow> y mod 4 = 0" by simp
qed

lemma DayFromYear_Suc: "DayFromYear (y + 1) = DayFromYear y + DaysInYear y"
proof -
  have e: "y + 1 - 1969 = y - 1969 + 1" "y + 1 - 1901 = y - 1901 + 1" "y + 1 - 1601 = y - 1601 + 1"
    by simp_all
  have a: "(y + 1 - 1969) div 4 = (y - 1969) div 4 + (if y mod 4 = 0 then 1 else 0)"
    unfolding e using div_step[of 4 "y - 1969"] by (simp only: mod_shift)
  have b: "(y + 1 - 1901) div 100 = (y - 1901) div 100 + (if y mod 100 = 0 then 1 else 0)"
    unfolding e using div_step[of 100 "y - 1901"] by (simp only: mod_shift)
  have c: "(y + 1 - 1601) div 400 = (y - 1601) div 400 + (if y mod 400 = 0 then 1 else 0)"
    unfolding e using div_step[of 400 "y - 1601"] by (simp only: mod_shift)
  show ?thesis
    unfolding DayFromYear_def DaysInYear_def a b c using mod_chain[of y] by auto
qed

lemma YearFromTime_bounds:
  "DayFromYear (YearFromTime t) \<le> Day t \<and> Day t < DayFromYear (YearFromTime t + 1)"
proof -
  define d where "d = Day t"
  define k where "k = (400 * d) div 146097"
  have k: "146097 * k \<le> 400 * d" "400 * d < 146097 * k + 146097"
    unfolding k_def by (simp_all add: int_div_bounds)
  have lo: "DayFromYear (1970 + k - 1) \<le> d"
    using DayFromYear_deviation(2)[of "1970 + k - 1"] k by simp
  have hi: "d < DayFromYear (1970 + k + 1 + 1)"
    using DayFromYear_deviation(1)[of "1970 + k + 1 + 1"] k by simp
  show ?thesis
    using lo hi unfolding YearFromTime_def Let_def d_def[symmetric] k_def[symmetric]
    by auto
qed


lemma DayWithinYear_range:
  "0 \<le> DayWithinYear t" "DayWithinYear t < 365 + InLeapYear t"
proof -
  have l: "DaysInYear (YearFromTime t) = 365 + InLeapYear t"
    by (simp add: InLeapYear_def DaysInYear_def)
  show "0 \<le> DayWithinYear t" using YearFromTime_bounds[of t] by (simp add: DayWithinYear_def)
  show "DayWithinYear t < 365 + InLeapYear t"
    using YearFromTime_bounds[of t] unfolding DayFromYear_Suc l by (simp add: DayWithinYear_def)
qed

lemma InLeapYear_cases: "InLeapYear t = 0 \<or> InLeapYear t = 1"
  by (simp add: InLeapYear_def)

lemma MonthFromTime_range: "0 \<le> MonthFromTime t" "MonthFromTime t \<le> 11"
  by (simp_all add: MonthFromTime_def Let_def)

lemma DateFromTime_range:
  "1 \<le> DateFromTime t"
  "DateFromTime t \<le> month_start (InLeapYear t) (MonthFromTime t + 1)
                      - month_start (InLeapYear t) (MonthFromTime t)"
  using DayWithinYear_range[of t] InLeapYear_cases[of t]
  unfolding DateFromTime_def MonthFromTime_def month_start_def Let_def
  by (auto split: if_splits)


lemma time_decompose:
  "Day t * msPerDay + HourFromTime t * 3600000 + MinFromTime t * 60000 + SecFromTime t * 1000
     + msFromTime t = t"
proof -
  define a where "a = t div 1000"
  define b where "b = a div 60"
  define c where "c = b div 60"
  have d1: "t div 60000 = b" using zdiv_zmult2_eq[of 60 t 1000] by (simp add: a_def b_def)
  have d2: "t div 3600000 = c" using zdiv_zmult2_eq[of 60 t 60000] by (simp add: d1 c_def)
  have d3: "t div 86400000 = c div 24" using zdiv_zmult2_eq[of 24 t 3600000] by (simp add: d2)
  have e1: "t = 1000 * a + t mod 1000" by (simp add: a_def)
  have e2: "a = 60 * b + a mod 60" by (simp add: b_def)
  have e3: "b = 60 * c + b mod 60" by (simp add: c_def)
  have e4: "c = 24 * (c div 24) + c mod 24" by simp
  have "(c div 24) * 86400000 + (c mod 24) * 3600000 + (b mod 60) * 60000 + (a mod 60) * 1000
          + t mod 1000 = t"
    using e1 e2 e3 e4 by linarith
  then show ?thesis
    by (simp add: Day_def msPerDay_def HourFromTime_def MinFromTime_def SecFromTime_def
        msFromTime_def d1 d2 d3 a_def[symmetric])
qed

lemma length_pad [simp]: "length (pad k n) = k"
  by (induction k arbitrary: n) simp_all

lemma digit_cases:
  fixes m :: nat
  assumes "m < 10"
  shows "m \<in> {0, 1, 2, 3, 4, 5, 6, 7, 8, 9}"
proof -
  have "m = 0 \<or> m = 1 \<or> m = 2 \<or> m = 3 \<or> m = 4 \<or> m = 5 \<or> m = 6 \<or> m = 7 \<or> m = 8 \<or> m = 9"
    using assms by presburger
  then show ?thesis by blast
qed

lemma digit_value_digit_char: "digit_value (digit_char d) = Some (d mod 10)"
proof -
  have "d mod 10 \<in> {0, 1, 2, 3, 4, 5, 6, 7, 8, 9}" by (rule digit_cases) simp
  then show ?thesis
    unfolding digit_char_def digit_value_def
    by (auto simp: upt_conv_Cons)
qed

lemma digit_char_not_sign: "digit_char d \<noteq> CHR ''+''" "digit_char d \<noteq> CHR ''-''"
proof -
  have "d mod 10 \<in> {0, 1, 2, 3, 4, 5, 6, 7, 8, 9}" by (rule digit_cases) simp
  then show "digit_char d \<noteq> CHR ''+''" "digit_char d \<noteq> CHR ''-''"
    unfolding digit_char_def by auto
qed

lemma read_digits_append:
  "read_digits (xs @ ys) acc = Option.bind (read_digits xs acc) (read_digits ys)"
  by (induction xs arbitrary: acc) (simp_all split: option.splits)

lemma read_digits_pad: "read_digits (pad k n) acc = Some (acc * 10 ^ k + n mod 10 ^ k)"
proof (induction k arbitrary: n acc)
  case 0
  then show ?case by simp
next
  case (Suc k)
  have "n div 10 mod 10 ^ k * 10 + n mod 10 = n mod (10 * 10 ^ k)"
    by (simp add: mod_mult2_eq)
  then show ?case
    by (simp add: read_digits_append Suc digit_value_digit_char algebra_simps)
qed

lemma read_fixed_pad:
  "n < 10 ^ k \<Longrightarrow> read_fixed k (pad k n @ rest) = Some (n, rest)"
  by (simp add: read_fixed_def read_digits_pad)

lemma expect_Cons: "expect c (c # s) = Some s"
  by (simp add: expect_def)


lemma MakeTime_fields:
  assumes "\<bar>t\<bar> \<le> 8640000000000000"
  shows "MakeTime (YearFromTime t) (nat (MonthFromTime t + 1)) (nat (DateFromTime t))
           (nat (HourFromTime t)) (nat (MinFromTime t)) (nat (SecFromTime t)) (nat (msFromTime t)) = Some t"
proof -
  define mo where "mo = nat (MonthFromTime t + 1)"
  define d where "d = nat (DateFromTime t)"
  define h where "h = nat (HourFromTime t)"
  define mi where "mi = nat (MinFromTime t)"
  define sec where "sec = nat (SecFromTime t)"
  define ms where "ms = nat (msFromTime t)"
  define leap where "leap = InLeapYear t"
  have m: "0 \<le> MonthFromTime t" "MonthFromTime t \<le> 11" by (rule MonthFromTime_range)+
  have dt: "1 \<le> DateFromTime t"
    "DateFromTime t \<le> month_start leap (MonthFromTime t + 1) - month_start leap (MonthFromTime t)"
    unfolding leap_def by (rule DateFromTime_range)+
  have hms: "0 \<le> HourFromTime t" "HourFromTime t < 24" "0 \<le> MinFromTime t" "MinFromTime t < 60"
    "0 \<le> SecFromTime t" "SecFromTime t < 60" "0 \<le> msFromTime t"
    by (simp_all add: HourFromTime_def MinFromTime_def SecFromTime_def msFromTime_def)
  have i: "int mo = MonthFromTime t + 1" "int d = DateFromTime t" "int h = HourFromTime t"
    "int mi = MinFromTime t" "int sec = SecFromTime t" "int ms = msFromTime t"
    using m dt hms by (simp_all add: mo_def d_def h_def mi_def sec_def ms_def)
  have n: "1 \<le> mo" "mo \<le> 12" "1 \<le> d" "h < 24" "mi < 60" "sec < 60"
    using m dt hms i by linarith+
  have day: "DayFromYear (YearFromTime t) + month_start leap (int mo - 1) + (int d - 1) = Day t"
    unfolding i leap_def by (simp add: DateFromTime_def DayWithinYear_def)
  have t: "(DayFromYear (YearFromTime t) + month_start leap (int mo - 1) + (int d - 1)) * msPerDay
            + int h * 3600000 + int mi * 60000 + int sec * 1000 + int ms = t"
  proof -
    have "Day t * msPerDay + int h * 3600000 + int mi * 60000 + int sec * 1000 + int ms = t"
      unfolding i by (rule time_decompose)
    then show ?thesis by (simp only: day)
  qed
  have dm: "int d \<le> month_start leap (int mo) - month_start leap (int mo - 1)"
    unfolding i using dt(2) by simp
  have "MakeTime (YearFromTime t) mo d h mi sec ms = Some t"
    unfolding MakeTime_def Let_def InLeapYear_def[symmetric] leap_def[symmetric] t
    using n dm assms by simp
  then show ?thesis by (simp only: mo_def d_def h_def mi_def sec_def ms_def)
qed


lemma YearFromTime_range:
  assumes "\<bar>t\<bar> \<le> 8640000000000000"
  shows "- 271821 \<le> YearFromTime t" "YearFromTime t \<le> 275760"
proof -
  define d where "d = Day t"
  define y where "y = YearFromTime t"
  have "86400000 * d \<le> t" "t < 86400000 * d + 86400000"
    unfolding d_def Day_def msPerDay_def by (simp_all add: int_div_bounds)
  then have d: "- 100000000 \<le> d" "d \<le> 100000000" using assms by simp_all
  have b: "DayFromYear y \<le> d" "d < DayFromYear (y + 1)"
    using YearFromTime_bounds[of t] by (simp_all add: d_def y_def)
  have "146097 * (y - 1970) - 506 \<le> 400 * d"
    using DayFromYear_deviation(1)[of y] b(1) by simp
  then show "YearFromTime t \<le> 275760" using d(2) by (simp add: y_def)
  have "400 * d < 146097 * (y + 1 - 1970) + 589"
    using DayFromYear_deviation(2)[of "y + 1"] b(2) by simp
  then show "- 271821 \<le> YearFromTime t" using d(1) by (simp add: y_def)
qed

lemma parse_time_format:
  assumes "mo < 10 ^ 2" "d < 10 ^ 2" "h < 10 ^ 2" "mi < 10 ^ 2" "sec < 10 ^ 2" "ms < 10 ^ 3"
  shows "parse_time y (CHR ''-'' # pad 2 mo @ CHR ''-'' # pad 2 d @ CHR ''T'' # pad 2 h @ CHR '':'' # pad 2 mi
            @ CHR '':'' # pad 2 sec @ CHR ''.'' # pad 3 ms @ ''Z'') = MakeTime y mo d h mi sec ms"
  using assms by (simp add: parse_time_def expect_Cons read_fixed_pad)

lemma DateFromTime_le_31: "DateFromTime t \<le> 31"
  using DayWithinYear_range[of t] InLeapYear_cases[of t]
  unfolding DateFromTime_def MonthFromTime_def month_start_def Let_def
  by (auto split: if_splits)

lemma parse_time_fields:
  assumes "\<bar>t\<bar> \<le> 8640000000000000"
  shows "parse_time (YearFromTime t)
           (CHR ''-'' # pad 2 (nat (MonthFromTime t + 1)) @ CHR ''-''
             # pad 2 (nat (DateFromTime t)) @ CHR ''T'' # pad 2 (nat (HourFromTime t)) @ CHR '':''
             # pad 2 (nat (MinFromTime t)) @ CHR '':'' # pad 2 (nat (SecFromTime t)) @ CHR ''.''
             # pad 3 (nat (msFromTime t)) @ ''Z'') = Some t"
proof -
  have m: "MonthFromTime t \<le> 11" by (rule MonthFromTime_range)
  have hms: "HourFromTime t < 24" "MinFromTime t < 60" "SecFromTime t < 60" "msFromTime t < 1000"
    by (simp_all add: HourFromTime_def MinFromTime_def SecFromTime_def msFromTime_def)
  have n: "nat (MonthFromTime t + 1) < 10 ^ 2" "nat (DateFromTime t) < 10 ^ 2"
    "nat (HourFromTime t) < 10 ^ 2" "nat (MinFromTime t) < 10 ^ 2" "nat (SecFromTime t) < 10 ^ 2"
    "nat (msFromTime t) < 10 ^ 3"
    using m DateFromTime_le_31[of t] hms by simp_all
  show ?thesis
    by (simp only: parse_time_format[OF n] MakeTime_fields[OF assms])
qed


lemma toISOString_split:
  "Date_toISOString t = year_string (YearFromTime t) @
     (CHR ''-'' # pad 2 (nat (MonthFromTime t + 1)) @ CHR ''-''
             # pad 2 (nat (DateFromTime t)) @ CHR ''T'' # pad 2 (nat (HourFromTime t)) @ CHR '':''
             # pad 2 (nat (MinFromTime t)) @ CHR '':'' # pad 2 (nat (SecFromTime t)) @ CHR ''.''
             # pad 3 (nat (msFromTime t)) @ ''Z'')"
  by (simp add: Date_toISOString_def)

lemma Date_parse_unsigned:
  "c \<noteq> CHR ''+'' \<Longrightarrow> c \<noteq> CHR ''-'' \<Longrightarrow>
   Date_parse (c # cs) =
     (case read_fixed 4 (c # cs) of None \<Rightarrow> None | Some (y, r) \<Rightarrow> parse_time (int y) r)"
  by (simp add: Date_parse_def)

lemma Date_parse_signed:
  "c = CHR ''+'' \<or> c = CHR ''-'' \<Longrightarrow>
   Date_parse (c # cs) =
     (case read_fixed 6 cs of
        None \<Rightarrow> None
      | Some (y, r) \<Rightarrow>
          if c = CHR ''-'' \<and> y = 0 then None
          else parse_time (if c = CHR ''-'' then - int y else int y) r)"
  by (simp add: Date_parse_def)

lemma pad_head: "0 < k \<Longrightarrow> \<exists>d cs. pad k n = digit_char d # cs"
proof (induction k arbitrary: n)
  case 0
  then show ?case by simp
next
  case (Suc k)
  show ?case
  proof (cases "k = 0")
    case True
    then show ?thesis by auto
  next
    case False
    then obtain d cs where "pad k (n div 10) = digit_char d # cs" using Suc.IH by blast
    then show ?thesis by auto
  qed
qed


lemma Date_parse_four:
  assumes "n < 10 ^ 4"
  shows "Date_parse (pad 4 n @ rest) = parse_time (int n) rest"
proof -
  obtain d cs where c: "pad 4 n = digit_char d # cs" using pad_head[of 4 n] by auto
  have r: "read_fixed 4 (digit_char d # cs @ rest) = Some (n, rest)"
    using read_fixed_pad[OF assms, of rest] by (simp add: c)
  show ?thesis
    unfolding c append_Cons by (simp add: Date_parse_unsigned digit_char_not_sign r)
qed

lemma Date_parse_six:
  assumes "n < 10 ^ 6" "0 < n" "c = CHR ''+'' \<or> c = CHR ''-''"
  shows "Date_parse (c # pad 6 n @ rest) = parse_time (if c = CHR ''-'' then - int n else int n) rest"
  using assms(2) by (simp add: Date_parse_signed[OF assms(3)] read_fixed_pad[OF assms(1)])

lemma Date_parse_toISOString:
  assumes "\<bar>t\<bar> \<le> 8640000000000000"
  shows "Date_parse (Date_toISOString t) = Some t"
proof -
  have y: "- 271821 \<le> YearFromTime t" "YearFromTime t \<le> 275760"
    by (rule YearFromTime_range[OF assms])+
  show ?thesis
  proof (cases "0 \<le> YearFromTime t \<and> YearFromTime t \<le> 9999")
    case True
    then have ys: "year_string (YearFromTime t) = pad 4 (nat (YearFromTime t))"
      by (simp add: year_string_def)
    have n: "nat (YearFromTime t) < 10 ^ 4" "int (nat (YearFromTime t)) = YearFromTime t"
      using True by auto
    show ?thesis
      unfolding toISOString_split ys Date_parse_four[OF n(1)] n(2)
      by (rule parse_time_fields[OF assms])
  next
    case False
    define c where "c = (if YearFromTime t < 0 then CHR ''-'' else CHR ''+'')"
    have ys: "year_string (YearFromTime t) = c # pad 6 (nat \<bar>YearFromTime t\<bar>)"
      using False by (simp add: year_string_def c_def)
    have n: "nat \<bar>YearFromTime t\<bar> < 10 ^ 6" "0 < nat \<bar>YearFromTime t\<bar>"
      "c = CHR ''+'' \<or> c = CHR ''-''"
      using False y by (auto simp: c_def)
    have i: "(if c = CHR ''-'' then - int (nat \<bar>YearFromTime t\<bar>) else int (nat \<bar>YearFromTime t\<bar>))
               = YearFromTime t"
      using False by (auto simp: c_def)
    show ?thesis
      unfolding toISOString_split ys append_Cons Date_parse_six[OF n] i
      by (rule parse_time_fields[OF assms])
  qed
qed

lemma toISOString_example: "Date_toISOString 1793699696789 = ''2026-11-03T09:54:56.789Z''"
  by code_simp

section \<open>Validation\<close>

lemmas handler_simps = respond_def catch_500_def catch_connect_def catch_intent_def Let_def

lemma connect_account_falsy:
  "\<not> truthy (get_prop b ''bandId'') \<or> \<not> truthy (get_prop b ''email'') \<Longrightarrow>
   create_connect_account rt stripe b =
     \<lparr>response = \<lparr>status = 400, body = Json (JObj [(''error'', JStr ''bandId and email are required'')])\<rparr>,
      logs = [], calls = []\<rparr>"
  by (auto simp: create_connect_account_def handler_simps)

lemma account_status_falsy:
  "\<not> truthy (get_prop b ''accountId'') \<Longrightarrow>
   connect_account_status stripe b =
     \<lparr>response = \<lparr>status = 400, body = Json (JObj [(''error'', JStr ''accountId is required'')])\<rparr>,
      logs = [], calls = []\<rparr>"
  by (simp add: connect_account_status_def handler_simps)

lemma dashboard_link_falsy:
  "\<not> truthy (get_prop b ''accountId'') \<Longrightarrow>
   payout_dashboard_link stripe b =
     \<lparr>response = \<lparr>status = 400, body = Json (JObj [(''error'', JStr ''accountId is required'')])\<rparr>,
      logs = [], calls = []\<rparr>"
  by (simp add: payout_dashboard_link_def handler_simps)

lemma payment_intent_falsy:
  "\<not> truthy (get_prop b ''amount'') \<or> \<not> truthy (get_prop b ''bandStripeAccountId'') \<Longrightarrow>
   create_payment_intent rt stripe b =
     \<lparr>response = \<lparr>status = 400,
                   body = Json (JObj [(''error'', JStr ''amount and bandStripeAccountId are required'')])\<rparr>,
      logs = [], calls = []\<rparr>"
  by (auto simp: create_payment_intent_def handler_simps)

text \<open>
  Claim C5. A request to POST /create-connect-account whose body lacks \<^verbatim>\<open>bandId\<close> or
  \<^verbatim>\<open>email\<close> is answered with status 400 and the body
  \<^verbatim>\<open>{error: "bandId and email are required"}\<close>; nothing is logged and no request is sent
  to the payment platform, whatever the client is.
\<close>

theorem connect_account_missing_field:
  assumes "get_prop b ''bandId'' = JUndefined \<or> get_prop b ''email'' = JUndefined"
  shows "create_connect_account rt stripe b =
     \<lparr>response = \<lparr>status = 400, body = Json (JObj [(''error'', JStr ''bandId and email are required'')])\<rparr>,
      logs = [], calls = []\<rparr>"
  using assms by (intro connect_account_falsy) auto

theorem connect_account_missing_field_witness:
  "(get_prop (JObj [(''email'', JStr ''e@x.com'')]) ''bandId'' = JUndefined
     \<or> get_prop (JObj [(''email'', JStr ''e@x.com'')]) ''email'' = JUndefined)
   \<and> create_connect_account test_runtime (Some stub_client) (JObj [(''email'', JStr ''e@x.com'')]) =
     \<lparr>response = \<lparr>status = 400, body = Json (JObj [(''error'', JStr ''bandId and email are required'')])\<rparr>,
      logs = [], calls = []\<rparr>"
  using connect_account_missing_field [of "JObj [(''email'', JStr ''e@x.com'')]" test_runtime "Some stub_client"]
  by simp

text \<open>
  Claim C6. A request to POST /connect-account-status or POST /payout-dashboard-link
  without \<^verbatim>\<open>accountId\<close>, and a request to POST /create-payment-intent without
  \<^verbatim>\<open>amount\<close> or without \<^verbatim>\<open>bandStripeAccountId\<close>, is answered with status 400 and
  no request is sent to the payment platform.
\<close>

theorem missing_field_rejected_before_call:
  "(get_prop b ''accountId'' = JUndefined \<longrightarrow>
      status (response (connect_account_status stripe b)) = 400
      \<and> calls (connect_account_status stripe b) = []
      \<and> status (response (payout_dashboard_link stripe b)) = 400
      \<and> calls (payout_dashboard_link stripe b) = [])
   \<and> (get_prop b ''amount'' = JUndefined \<or> get_prop b ''bandStripeAccountId'' = JUndefined \<longrightarrow>
      status (response (create_payment_intent rt stripe b)) = 400
      \<and> calls (create_payment_intent rt stripe b) = [])"
proof (intro conjI impI)
  assume a: "get_prop b ''accountId'' = JUndefined"
  then have f: "\<not> truthy (get_prop b ''accountId'')" by simp
  show "status (response (connect_account_status stripe b)) = 400"
    and "calls (connect_account_status stripe b) = []"
    by (simp_all add: account_status_falsy[OF f])
  show "status (response (payout_dashboard_link stripe b)) = 400"
    and "calls (payout_dashboard_link stripe b) = []"
    by (simp_all add: dashboard_link_falsy[OF f])
next
  assume "get_prop b ''amount'' = JUndefined \<or> get_prop b ''bandStripeAccountId'' = JUndefined"
  then have f: "\<not> truthy (get_prop b ''amount'') \<or> \<not> truthy (get_prop b ''bandStripeAccountId'')"
    by auto
  show "status (response (create_payment_intent rt stripe b)) = 400"
    and "calls (create_payment_intent rt stripe b) = []"
    by (simp_all add: payment_intent_falsy[OF f])
qed

theorem missing_field_rejected_before_call_witness:
  "get_prop (JObj []) ''accountId'' = JUndefined
   \<and> (get_prop (JObj []) ''amount'' = JUndefined \<or> get_prop (JObj []) ''bandStripeAccountId'' = JUndefined)
   \<and> status (response (connect_account_status (Some stub_client) (JObj []))) = 400
   \<and> calls (connect_account_status (Some stub_client) (JObj [])) = []
   \<and> status (response (payout_dashboard_link (Some stub_client) (JObj []))) = 400
   \<and> calls (payout_dashboard_link (Some stub_client) (JObj [])) = []
   \<and> status (response (create_payment_intent test_runtime (Some stub_client) (JObj []))) = 400
   \<and> calls (create_payment_intent test_runtime (Some stub_client) (JObj [])) = []"
  using missing_field_rejected_before_call [of "JObj []" "Some stub_client" test_runtime]
  by simp

text \<open>
  Claim C9. Presence of a required field is decided by truthiness: the number \<open>0\<close> and
  the empty string are falsy, and a request whose \<^verbatim>\<open>amount\<close>,
  \<^verbatim>\<open>bandStripeAccountId\<close>, \<^verbatim>\<open>bandId\<close>, \<^verbatim>\<open>email\<close> or \<^verbatim>\<open>accountId\<close> is falsy gets
  the 400 response of a missing field: the outcome is that fixed response, with no
  console line and no request to the payment platform, so neither the fee computation
  nor the client is reached.
\<close>

theorem falsy_field_treated_as_missing:
  "\<not> truthy (JNum (Fin 0)) \<and> \<not> truthy (JStr [])
   \<and> (\<not> truthy (get_prop b ''amount'') \<or> \<not> truthy (get_prop b ''bandStripeAccountId'') \<longrightarrow>
        create_payment_intent rt stripe b =
          \<lparr>response = \<lparr>status = 400,
             body = Json (JObj [(''error'', JStr ''amount and bandStripeAccountId are required'')])\<rparr>,
           logs = [], calls = []\<rparr>)
   \<and> (\<not> truthy (get_prop b ''bandId'') \<or> \<not> truthy (get_prop b ''email'') \<longrightarrow>
        create_connect_account rt stripe b =
          \<lparr>response = \<lparr>status = 400,
             body = Json (JObj [(''error'', JStr ''bandId and email are required'')])\<rparr>,
           logs = [], calls = []\<rparr>)
   \<and> (\<not> truthy (get_prop b ''accountId'') \<longrightarrow>
        connect_account_status stripe b =
          \<lparr>response = \<lparr>status = 400, body = Json (JObj [(''error'', JStr ''accountId is required'')])\<rparr>,
           logs = [], calls = []\<rparr>
        \<and> payout_dashboard_link stripe b =
          \<lparr>response = \<lparr>status = 400, body = Json (JObj [(''error'', JStr ''accountId is required'')])\<rparr>,
           logs = [], calls = []\<rparr>)"
  using payment_intent_falsy [of b rt stripe] connect_account_falsy [of b rt stripe]
    account_status_falsy [of b stripe] dashboard_link_falsy [of b stripe]
  by simp

theorem falsy_field_treated_as_missing_witness:
  "\<not> truthy (get_prop falsy_body ''amount'')
   \<and> \<not> truthy (get_prop falsy_body ''bandId'')
   \<and> \<not> truthy (get_prop falsy_body ''accountId'')
   \<and> create_payment_intent test_runtime (Some stub_client) falsy_body =
          \<lparr>response = \<lparr>status = 400,
             body = Json (JObj [(''error'', JStr ''amount and bandStripeAccountId are required'')])\<rparr>,
           logs = [], calls = []\<rparr>
   \<and> create_connect_account test_runtime (Some stub_client) falsy_body =
          \<lparr>response = \<lparr>status = 400,
             body = Json (JObj [(''error'', JStr ''bandId and email are required'')])\<rparr>,
           logs = [], calls = []\<rparr>
   \<and> connect_account_status (Some stub_client) falsy_body =
          \<lparr>response = \<lparr>status = 400, body = Json (JObj [(''error'', JStr ''accountId is required'')])\<rparr>,
           logs = [], calls = []\<rparr>
   \<and> payout_dashboard_link (Some stub_client) falsy_body =
          \<lparr>response = \<lparr>status = 400, body = Json (JObj [(''error'', JStr ''accountId is required'')])\<rparr>,
           logs = [], calls = []\<rparr>"
proof -
  have h: "\<not> truthy (get_prop falsy_body ''amount'')"
    "\<not> truthy (get_prop falsy_body ''bandId'')"
    "\<not> truthy (get_prop falsy_body ''accountId'')"
    by (simp_all add: falsy_body_def)
  show ?thesis
    using falsy_field_treated_as_missing [of falsy_body test_runtime "Some stub_client"] h by simp
qed

section \<open>The webhook\<close>

text \<open>
  Claim C4. When the verification of a webhook request fails (the SDK throws, or the
  client is not initialised), the response is 400 with the text
  \<^verbatim>\<open>Webhook Error: \<close> followed by the reason; the only console line is the failure
  line with that reason, no event is dispatched, nothing of an event is logged, and
  the acknowledgement \<^verbatim>\<open>{received: true}\<close> is not sent.
\<close>

theorem webhook_verification_failure:
  assumes "verify_event env stripe payload sig = Inl err"
  shows "webhook rt env stripe payload sig =
     Answered
       \<lparr>response = \<lparr>status = 400, body = Text (''Webhook Error: '' @ message err)\<rparr>,
        logs = [ConsoleError [LStr ''Webhook signature verification failed:'', LStr (message err)]],
        calls = []\<rparr>"
  using assms by (simp add: webhook_def respond_def)

theorem webhook_verification_failure_witness:
  "verify_event test_env (Some failing_client) (ParsedBody unnamed_event) (JStr ''t=1,v1=00'') =
     Inl (ExternalError ''No signatures found matching the expected signature for payload'')
   \<and> webhook test_runtime test_env (Some failing_client) (ParsedBody unnamed_event) (JStr ''t=1,v1=00'') =
     Answered
       \<lparr>response = \<lparr>status = 400,
          body = Text ''Webhook Error: No signatures found matching the expected signature for payload''\<rparr>,
        logs = [ConsoleError [LStr ''Webhook signature verification failed:'',
                              LStr ''No signatures found matching the expected signature for payload'']],
        calls = []\<rparr>"
proof -
  have h: "verify_event test_env (Some failing_client) (ParsedBody unnamed_event) (JStr ''t=1,v1=00'') =
     Inl (ExternalError ''No signatures found matching the expected signature for payload'')"
    by (simp add: verify_event_def failing_client_def)
  show ?thesis using h webhook_verification_failure [OF h, of test_runtime] by simp
qed








section \<open>Account creation\<close>





section \<open>Requests sent to the payment platform\<close>

text \<open>
  Claim C2, as amended. With an initialised client, a validated request to
  POST /connect-account-status, POST /payout-dashboard-link or (when the amount
  converts to a number) POST /create-payment-intent sends exactly one request to the
  payment platform, and the response is 500 exactly when that request threw. A
  validated request to POST /create-connect-account sends the account-creation
  request and, only after it returned, the account-link request: either one request
  and a 500 response, or two requests with the account created, and then the response
  is 500 exactly when the second request threw.
\<close>

theorem external_calls_of_validated_request:
  assumes "stripe = Some s"
  shows "(truthy (get_prop b ''accountId'') \<longrightarrow>
           (\<exists>r. calls (connect_account_status stripe b) = [Call AccountsRetrieve (get_prop b ''accountId'') r]
              \<and> (status (response (connect_account_status stripe b)) = 500 \<longleftrightarrow> \<not> r))
           \<and> (\<exists>r. calls (payout_dashboard_link stripe b) =
                    [Call AccountsCreateLoginLink (get_prop b ''accountId'') r]
              \<and> (status (response (payout_dashboard_link stripe b)) = 500 \<longleftrightarrow> \<not> r)))
       \<and> (truthy (get_prop b ''amount'') \<and> truthy (get_prop b ''bandStripeAccountId'')
            \<and> ToNumber rt (get_prop b ''amount'') = Inr n \<longrightarrow>
           (\<exists>p r. calls (create_payment_intent rt stripe b) = [Call PaymentIntentsCreate p r]
              \<and> (status (response (create_payment_intent rt stripe b)) = 500 \<longleftrightarrow> \<not> r)))
       \<and> (truthy (get_prop b ''bandId'') \<and> truthy (get_prop b ''email'') \<longrightarrow>
           (\<exists>p r. calls (create_connect_account rt stripe b) = [Call AccountsCreate p r]
              \<and> status (response (create_connect_account rt stripe b)) = 500)
           \<or> (\<exists>p q r. calls (create_connect_account rt stripe b) =
                    [Call AccountsCreate p True, Call AccountLinksCreate q r]
              \<and> (status (response (create_connect_account rt stripe b)) = 500 \<longleftrightarrow> \<not> r)))"
proof (intro conjI impI)
  assume "truthy (get_prop b ''accountId'')"
  then show "\<exists>r. calls (connect_account_status stripe b) = [Call AccountsRetrieve (get_prop b ''accountId'') r]
              \<and> (status (response (connect_account_status stripe b)) = 500 \<longleftrightarrow> \<not> r)"
    using assms by (auto simp: connect_account_status_def handler_simps split: sum.splits)
next
  assume "truthy (get_prop b ''accountId'')"
  then show "\<exists>r. calls (payout_dashboard_link stripe b) =
                    [Call AccountsCreateLoginLink (get_prop b ''accountId'') r]
              \<and> (status (response (payout_dashboard_link stripe b)) = 500 \<longleftrightarrow> \<not> r)"
    using assms by (auto simp: payout_dashboard_link_def handler_simps split: sum.splits)
next
  assume "truthy (get_prop b ''amount'') \<and> truthy (get_prop b ''bandStripeAccountId'')
            \<and> ToNumber rt (get_prop b ''amount'') = Inr n"
  then show "\<exists>p r. calls (create_payment_intent rt stripe b) = [Call PaymentIntentsCreate p r]
              \<and> (status (response (create_payment_intent rt stripe b)) = 500 \<longleftrightarrow> \<not> r)"
    using assms by (auto simp: create_payment_intent_def handler_simps split: sum.splits)
next
  assume "truthy (get_prop b ''bandId'') \<and> truthy (get_prop b ''email'')"
  then show "(\<exists>p r. calls (create_connect_account rt stripe b) = [Call AccountsCreate p r]
              \<and> status (response (create_connect_account rt stripe b)) = 500)
           \<or> (\<exists>p q r. calls (create_connect_account rt stripe b) =
                    [Call AccountsCreate p True, Call AccountLinksCreate q r]
              \<and> (status (response (create_connect_account rt stripe b)) = 500 \<longleftrightarrow> \<not> r))"
    using assms by (auto simp: create_connect_account_def handler_simps split: sum.splits)
qed

theorem external_calls_of_validated_request_witness:
  "Some stub_client = Some stub_client
   \<and> truthy (get_prop full_body ''accountId'')
   \<and> truthy (get_prop full_body ''amount'') \<and> truthy (get_prop full_body ''bandStripeAccountId'')
   \<and> ToNumber test_runtime (get_prop full_body ''amount'') = Inr (Fin 10000)
   \<and> truthy (get_prop full_body ''bandId'') \<and> truthy (get_prop full_body ''email'')
   \<and> (\<exists>r. calls (connect_account_status (Some stub_client) full_body) =
              [Call AccountsRetrieve (get_prop full_body ''accountId'') r]
          \<and> (status (response (connect_account_status (Some stub_client) full_body)) = 500 \<longleftrightarrow> \<not> r))
   \<and> (\<exists>r. calls (payout_dashboard_link (Some stub_client) full_body) =
              [Call AccountsCreateLoginLink (get_prop full_body ''accountId'') r]
          \<and> (status (response (payout_dashboard_link (Some stub_client) full_body)) = 500 \<longleftrightarrow> \<not> r))
   \<and> (\<exists>p r. calls (create_payment_intent test_runtime (Some stub_client) full_body) =
              [Call PaymentIntentsCreate p r]
          \<and> (status (response (create_payment_intent test_runtime (Some stub_client) full_body)) = 500
                \<longleftrightarrow> \<not> r))
   \<and> ((\<exists>p r. calls (create_connect_account test_runtime (Some stub_client) full_body) =
              [Call AccountsCreate p r]
          \<and> status (response (create_connect_account test_runtime (Some stub_client) full_body)) = 500)
        \<or> (\<exists>p q r. calls (create_connect_account test_runtime (Some stub_client) full_body) =
              [Call AccountsCreate p True, Call AccountLinksCreate q r]
          \<and> (status (response (create_connect_account test_runtime (Some stub_client) full_body)) = 500
                \<longleftrightarrow> \<not> r)))"
proof -
  have h: "truthy (get_prop full_body ''accountId'')"
    "truthy (get_prop full_body ''amount'')" "truthy (get_prop full_body ''bandStripeAccountId'')"
    "ToNumber test_runtime (get_prop full_body ''amount'') = Inr (Fin 10000)"
    "truthy (get_prop full_body ''bandId'')" "truthy (get_prop full_body ''email'')"
    by (simp_all add: full_body_def)
  show ?thesis
    using external_calls_of_validated_request
      [of "Some stub_client" stub_client full_body test_runtime "Fin 10000"] h
    by simp
qed

text \<open>
  The claim as stated fails on POST /create-connect-account: with a client that
  creates the account and then fails to create the account link, the handler sends
  two requests and answers 500 after the account was created.
\<close>

theorem connect_account_partial_failure:
  "status (response (create_connect_account test_runtime (Some link_failing_client) connect_body)) = 500
   \<and> calls (create_connect_account test_runtime (Some link_failing_client) connect_body) =
       [Call AccountsCreate (account_params (JStr ''US'') (JStr ''e@x.com'')) True,
        Call AccountLinksCreate (account_link_params ''acct_1'' ''b1'') False]"
  by (simp add: create_connect_account_def handler_simps connect_body_def link_failing_client_def
      stub_client_def stub_account_def with_default_def)

section \<open>The platform fee\<close>

lemma payment_intent_success:
  assumes "status (response (create_payment_intent rt stripe b)) = 200"
  obtains s n paymentIntent where
           "stripe = Some s"
           "truthy (get_prop b ''amount'')"
           "ToNumber rt (get_prop b ''amount'') = Inr n"
           "paymentIntents_create s
                (payment_intent_params (get_prop b ''amount'')
                   (with_default (get_prop b ''currency'') (JStr ''usd''))
                   (Math_round (js_mul n (Fin c005)))
                   (get_prop b ''bandStripeAccountId'') (get_prop b ''description'')) = Inr paymentIntent"
           "create_payment_intent rt stripe b =
               \<lparr>response =
                  \<lparr>status = 200,
                   body = Json (JObj [(''clientSecret'', JStr (client_secret paymentIntent)),
                                      (''paymentIntentId'', JStr (pi_id paymentIntent)),
                                      (''platformFee'', JNum (Math_round (js_mul n (Fin c005)))),
                                      (''bandAmount'', JNum (js_sub n (Math_round (js_mul n (Fin c005)))))])\<rparr>,
                logs = [],
                calls = [Call PaymentIntentsCreate
                           (payment_intent_params (get_prop b ''amount'')
                              (with_default (get_prop b ''currency'') (JStr ''usd''))
                              (Math_round (js_mul n (Fin c005)))
                              (get_prop b ''bandStripeAccountId'') (get_prop b ''description'')) True]\<rparr>"
  using assms
  by (auto simp: create_payment_intent_def handler_simps split: if_splits option.splits sum.splits)

lemma payment_intent_exact:
  assumes "get_prop b ''amount'' = JNum (Fin (of_int a))" "0 \<le> a" "a < 2 ^ 50"
    and "status (response (create_payment_intent rt stripe b)) = 200"
  shows "\<exists>secret ident.
           body (response (create_payment_intent rt stripe b)) =
             Json (JObj [(''clientSecret'', JStr secret),
                         (''paymentIntentId'', JStr ident),
                         (''platformFee'', JNum (Fin (of_int (round (real_of_int a * 0.05))))),
                         (''bandAmount'', JNum (Fin (of_int (a - round (real_of_int a * 0.05)))))])"
proof -
  from assms(4) obtain s n paymentIntent where
    "stripe = Some s" and
    t: "truthy (get_prop b ''amount'')" and n: "ToNumber rt (get_prop b ''amount'') = Inr n"
    and "paymentIntents_create s
                (payment_intent_params (get_prop b ''amount'')
                   (with_default (get_prop b ''currency'') (JStr ''usd''))
                   (Math_round (js_mul n (Fin c005)))
                   (get_prop b ''bandStripeAccountId'') (get_prop b ''description'')) = Inr paymentIntent"
    and r: "create_payment_intent rt stripe b =
               \<lparr>response =
                  \<lparr>status = 200,
                   body = Json (JObj [(''clientSecret'', JStr (client_secret paymentIntent)),
                                      (''paymentIntentId'', JStr (pi_id paymentIntent)),
                                      (''platformFee'', JNum (Math_round (js_mul n (Fin c005)))),
                                      (''bandAmount'', JNum (js_sub n (Math_round (js_mul n (Fin c005)))))])\<rparr>,
                logs = [],
                calls = [Call PaymentIntentsCreate
                           (payment_intent_params (get_prop b ''amount'')
                              (with_default (get_prop b ''currency'') (JStr ''usd''))
                              (Math_round (js_mul n (Fin c005)))
                              (get_prop b ''bandStripeAccountId'') (get_prop b ''description'')) True]\<rparr>"
    by (rule payment_intent_success)
  have n': "n = Fin (of_int a)" using n assms(1) by simp
  have "a \<noteq> 0" using t assms(1) by auto
  then have a0: "0 < a" using assms(2) by simp
  have fee: "Math_round (js_mul n (Fin c005)) = Fin (of_int (round (real_of_int a * 0.05)))"
    unfolding n' round_fee by (rule fee_exact[OF a0 assms(3)])
  have band: "js_sub n (Fin (of_int (round (real_of_int a * 0.05)))) = Fin (of_int (a - round (real_of_int a * 0.05)))"
    unfolding n' round_fee by (rule band_amount_exact[OF a0 assms(3)])
  show ?thesis unfolding r using fee band by simp
qed

lemma payment_intent_exact_outcome:
  assumes "get_prop b ''amount'' = JNum (Fin (of_int a))" "0 \<le> a" "a < 2 ^ 50"
    and "truthy (get_prop b ''amount'')" "truthy (get_prop b ''bandStripeAccountId'')"
    and "stripe = Some s"
    and "paymentIntents_create s
           (payment_intent_params (get_prop b ''amount'')
              (with_default (get_prop b ''currency'') (JStr ''usd''))
              (Fin (of_int (round (real_of_int a * 0.05))))
              (get_prop b ''bandStripeAccountId'') (get_prop b ''description'')) = Inr paymentIntent"
  shows "create_payment_intent rt stripe b =
           \<lparr>response =
              \<lparr>status = 200,
               body = Json (JObj [(''clientSecret'', JStr (client_secret paymentIntent)),
                                  (''paymentIntentId'', JStr (pi_id paymentIntent)),
                                  (''platformFee'', JNum (Fin (of_int (round (real_of_int a * 0.05))))),
                                  (''bandAmount'', JNum (Fin (of_int (a - round (real_of_int a * 0.05)))))])\<rparr>,
            logs = [],
            calls = [Call PaymentIntentsCreate
                       (payment_intent_params (get_prop b ''amount'')
                          (with_default (get_prop b ''currency'') (JStr ''usd''))
                          (Fin (of_int (round (real_of_int a * 0.05))))
                          (get_prop b ''bandStripeAccountId'') (get_prop b ''description'')) True]\<rparr>"
proof -
  have "a \<noteq> 0" using assms(1,4) by auto
  then have a0: "0 < a" using assms(2) by simp
  have fee: "Math_round (js_mul (Fin (of_int a)) (Fin c005)) = Fin (of_int (round (real_of_int a * 0.05)))"
    unfolding round_fee by (rule fee_exact[OF a0 assms(3)])
  have band: "js_sub (Fin (of_int a)) (Fin (of_int (round (real_of_int a * 0.05))))
                = Fin (of_int (a - round (real_of_int a * 0.05)))"
    unfolding round_fee by (rule band_amount_exact[OF a0 assms(3)])
  have n: "ToNumber rt (get_prop b ''amount'') = Inr (Fin (of_int a))" by (simp add: assms(1))
  show ?thesis
    unfolding create_payment_intent_def Let_def n
    using assms(4,5,6,7) fee band
    by (simp add: handler_simps)
qed

lemma payment_intent_client_throws:
  assumes "get_prop b ''amount'' = JNum (Fin (of_int a))" "0 \<le> a" "a < 2 ^ 50"
    and "truthy (get_prop b ''amount'')" "truthy (get_prop b ''bandStripeAccountId'')"
    and "stripe = Some s"
    and "paymentIntents_create s
           (payment_intent_params (get_prop b ''amount'')
              (with_default (get_prop b ''currency'') (JStr ''usd''))
              (Fin (of_int (round (real_of_int a * 0.05))))
              (get_prop b ''bandStripeAccountId'') (get_prop b ''description'')) = Inl e"
  shows "create_payment_intent rt stripe b =
           \<lparr>response = \<lparr>status = 500, body = Json (JObj [(''error'', JStr (message e))])\<rparr>,
            logs = [ConsoleError [LStr ''Error creating payment intent:'', LErr e]],
            calls = [Call PaymentIntentsCreate
                       (payment_intent_params (get_prop b ''amount'')
                          (with_default (get_prop b ''currency'') (JStr ''usd''))
                          (Fin (of_int (round (real_of_int a * 0.05))))
                          (get_prop b ''bandStripeAccountId'') (get_prop b ''description'')) False]\<rparr>"
proof -
  have "a \<noteq> 0" using assms(1,4) by auto
  then have a0: "0 < a" using assms(2) by simp
  have fee: "Math_round (js_mul (Fin (of_int a)) (Fin c005)) = Fin (of_int (round (real_of_int a * 0.05)))"
    unfolding round_fee by (rule fee_exact[OF a0 assms(3)])
  have n: "ToNumber rt (get_prop b ''amount'') = Inr (Fin (of_int a))" by (simp add: assms(1))
  show ?thesis
    unfolding create_payment_intent_def Let_def n
    using assms(4,5,6,7) fee
    by (simp add: handler_simps)
qed




lemma intent_stub_response:
  "response (create_payment_intent rt (Some stub_client) intent_body) =
     \<lparr>status = 200,
      body = Json (JObj [(''clientSecret'', JStr ''pi_1_secret''),
                         (''paymentIntentId'', JStr ''pi_1''),
                         (''platformFee'', JNum (Fin 500)),
                         (''bandAmount'', JNum (Fin 9500))])\<rparr>"
proof -
  have f: "Math_round (fl64 (10000 * c005)) = Fin 500"
    using fee_exact[of 10000] by simp
  have "fl64 (real_of_int 9500) = Fin (real_of_int 9500)" by (rule fl64_of_int) simp_all
  then have g: "fl64 9500 = Fin 9500" by simp
  show ?thesis
    by (simp add: create_payment_intent_def handler_simps intent_body_def stub_client_def f g)
qed

text \<open>
  Claim C1. A request to POST /create-payment-intent that passes validation, with an
  integer amount \<open>a\<close> of minor units, \<open>0 \<le> a < 2\<^sup>5\<^sup>0\<close>, and an initialised client: when
  the payment-intent call returns, the response is 200 with \<^verbatim>\<open>platformFee\<close> the integer
  \<open>round (a * 0.05)\<close> and \<^verbatim>\<open>bandAmount\<close> the integer \<open>a - round (a * 0.05)\<close>, the same
  fee having been sent to the platform; when the call throws, the response is 500 and
  carries neither field. The binary64 product, \<^verbatim>\<open>Math.round\<close> and the binary64
  difference lose nothing in that range. Every 200 response to a numeric amount has
  \<^verbatim>\<open>platformFee\<close> \<^verbatim>\<open>Math.round(amount * 0.05)\<close> and \<^verbatim>\<open>bandAmount\<close>
  \<^verbatim>\<open>amount - platformFee\<close>. In particular the amount 10000 yields the fee 500 and the
  band amount 9500.
\<close>

theorem payment_intent_fee_split:
  "(get_prop b ''amount'' = JNum (Fin (of_int a)) \<and> 0 \<le> a \<and> a < 2 ^ 50
      \<and> truthy (get_prop b ''amount'') \<and> truthy (get_prop b ''bandStripeAccountId'')
      \<and> stripe = Some s
      \<and> paymentIntents_create s
           (payment_intent_params (get_prop b ''amount'')
              (with_default (get_prop b ''currency'') (JStr ''usd''))
              (Fin (of_int (round (real_of_int a * 0.05))))
              (get_prop b ''bandStripeAccountId'') (get_prop b ''description'')) = Inr paymentIntent \<longrightarrow>
      create_payment_intent rt stripe b =
           \<lparr>response =
              \<lparr>status = 200,
               body = Json (JObj [(''clientSecret'', JStr (client_secret paymentIntent)),
                                  (''paymentIntentId'', JStr (pi_id paymentIntent)),
                                  (''platformFee'', JNum (Fin (of_int (round (real_of_int a * 0.05))))),
                                  (''bandAmount'', JNum (Fin (of_int (a - round (real_of_int a * 0.05)))))])\<rparr>,
            logs = [],
            calls = [Call PaymentIntentsCreate
                       (payment_intent_params (get_prop b ''amount'')
                          (with_default (get_prop b ''currency'') (JStr ''usd''))
                          (Fin (of_int (round (real_of_int a * 0.05))))
                          (get_prop b ''bandStripeAccountId'') (get_prop b ''description'')) True]\<rparr>)
   \<and> (get_prop b ''amount'' = JNum (Fin (of_int a)) \<and> 0 \<le> a \<and> a < 2 ^ 50
      \<and> truthy (get_prop b ''amount'') \<and> truthy (get_prop b ''bandStripeAccountId'')
      \<and> stripe = Some s
      \<and> paymentIntents_create s
           (payment_intent_params (get_prop b ''amount'')
              (with_default (get_prop b ''currency'') (JStr ''usd''))
              (Fin (of_int (round (real_of_int a * 0.05))))
              (get_prop b ''bandStripeAccountId'') (get_prop b ''description'')) = Inl e \<longrightarrow>
      create_payment_intent rt stripe b =
           \<lparr>response = \<lparr>status = 500, body = Json (JObj [(''error'', JStr (message e))])\<rparr>,
            logs = [ConsoleError [LStr ''Error creating payment intent:'', LErr e]],
            calls = [Call PaymentIntentsCreate
                       (payment_intent_params (get_prop b ''amount'')
                          (with_default (get_prop b ''currency'') (JStr ''usd''))
                          (Fin (of_int (round (real_of_int a * 0.05))))
                          (get_prop b ''bandStripeAccountId'') (get_prop b ''description'')) False]\<rparr>)
   \<and> (get_prop b ''amount'' = JNum n \<and> status (response (create_payment_intent rt stripe b)) = 200 \<longrightarrow>
      (\<exists>secret ident.
         body (response (create_payment_intent rt stripe b)) =
           Json (JObj [(''clientSecret'', JStr secret),
                       (''paymentIntentId'', JStr ident),
                       (''platformFee'', JNum (Math_round (js_mul n (Fin c005)))),
                       (''bandAmount'', JNum (js_sub n (Math_round (js_mul n (Fin c005)))))])))
   \<and> (get_prop b ''amount'' = JNum (Fin (of_int a)) \<and> 0 \<le> a \<and> a < 2 ^ 50
      \<and> status (response (create_payment_intent rt stripe b)) = 200 \<longrightarrow>
      (\<exists>secret ident.
         body (response (create_payment_intent rt stripe b)) =
           Json (JObj [(''clientSecret'', JStr secret),
                       (''paymentIntentId'', JStr ident),
                       (''platformFee'', JNum (Fin (of_int (round (real_of_int a * 0.05))))),
                       (''bandAmount'', JNum (Fin (of_int (a - round (real_of_int a * 0.05)))))])))
   \<and> response (create_payment_intent rt (Some stub_client)
         (JObj [(''amount'', JNum (Fin 10000)), (''bandStripeAccountId'', JStr ''acct_1'')])) =
       \<lparr>status = 200,
        body = Json (JObj [(''clientSecret'', JStr ''pi_1_secret''),
                           (''paymentIntentId'', JStr ''pi_1''),
                           (''platformFee'', JNum (Fin 500)),
                           (''bandAmount'', JNum (Fin 9500))])\<rparr>"
proof (intro conjI impI)
  assume c1: "get_prop b ''amount'' = JNum (Fin (of_int a)) \<and> 0 \<le> a \<and> a < 2 ^ 50
      \<and> truthy (get_prop b ''amount'') \<and> truthy (get_prop b ''bandStripeAccountId'')
      \<and> stripe = Some s
      \<and> paymentIntents_create s
           (payment_intent_params (get_prop b ''amount'')
              (with_default (get_prop b ''currency'') (JStr ''usd''))
              (Fin (of_int (round (real_of_int a * 0.05))))
              (get_prop b ''bandStripeAccountId'') (get_prop b ''description'')) = Inr paymentIntent"
  show "create_payment_intent rt stripe b =
           \<lparr>response =
              \<lparr>status = 200,
               body = Json (JObj [(''clientSecret'', JStr (client_secret paymentIntent)),
                                  (''paymentIntentId'', JStr (pi_id paymentIntent)),
                                  (''platformFee'', JNum (Fin (of_int (round (real_of_int a * 0.05))))),
                                  (''bandAmount'', JNum (Fin (of_int (a - round (real_of_int a * 0.05)))))])\<rparr>,
            logs = [],
            calls = [Call PaymentIntentsCreate
                       (payment_intent_params (get_prop b ''amount'')
                          (with_default (get_prop b ''currency'') (JStr ''usd''))
                          (Fin (of_int (round (real_of_int a * 0.05))))
                          (get_prop b ''bandStripeAccountId'') (get_prop b ''description'')) True]\<rparr>"
    apply (insert c1)
    apply (elim conjE)
    apply (rule payment_intent_exact_outcome [of b a stripe s paymentIntent rt]; assumption)
    done
next
  assume c2: "get_prop b ''amount'' = JNum (Fin (of_int a)) \<and> 0 \<le> a \<and> a < 2 ^ 50
      \<and> truthy (get_prop b ''amount'') \<and> truthy (get_prop b ''bandStripeAccountId'')
      \<and> stripe = Some s
      \<and> paymentIntents_create s
           (payment_intent_params (get_prop b ''amount'')
              (with_default (get_prop b ''currency'') (JStr ''usd''))
              (Fin (of_int (round (real_of_int a * 0.05))))
              (get_prop b ''bandStripeAccountId'') (get_prop b ''description'')) = Inl e"
  show "create_payment_intent rt stripe b =
           \<lparr>response = \<lparr>status = 500, body = Json (JObj [(''error'', JStr (message e))])\<rparr>,
            logs = [ConsoleError [LStr ''Error creating payment intent:'', LErr e]],
            calls = [Call PaymentIntentsCreate
                       (payment_intent_params (get_prop b ''amount'')
                          (with_default (get_prop b ''currency'') (JStr ''usd''))
                          (Fin (of_int (round (real_of_int a * 0.05))))
                          (get_prop b ''bandStripeAccountId'') (get_prop b ''description'')) False]\<rparr>"
    apply (insert c2)
    apply (elim conjE)
    apply (rule payment_intent_client_throws [of b a stripe s e rt]; assumption)
    done
next
  assume h: "get_prop b ''amount'' = JNum n \<and> status (response (create_payment_intent rt stripe b)) = 200"
  then have "status (response (create_payment_intent rt stripe b)) = 200" by simp
  then obtain s m paymentIntent where
    "stripe = Some s" and
    "truthy (get_prop b ''amount'')" and m: "ToNumber rt (get_prop b ''amount'') = Inr m"
    and "paymentIntents_create s
                (payment_intent_params (get_prop b ''amount'')
                   (with_default (get_prop b ''currency'') (JStr ''usd''))
                   (Math_round (js_mul m (Fin c005)))
                   (get_prop b ''bandStripeAccountId'') (get_prop b ''description'')) = Inr paymentIntent"
    and r: "create_payment_intent rt stripe b =
               \<lparr>response =
                  \<lparr>status = 200,
                   body = Json (JObj [(''clientSecret'', JStr (client_secret paymentIntent)),
                                      (''paymentIntentId'', JStr (pi_id paymentIntent)),
                                      (''platformFee'', JNum (Math_round (js_mul m (Fin c005)))),
                                      (''bandAmount'', JNum (js_sub m (Math_round (js_mul m (Fin c005)))))])\<rparr>,
                logs = [],
                calls = [Call PaymentIntentsCreate
                           (payment_intent_params (get_prop b ''amount'')
                              (with_default (get_prop b ''currency'') (JStr ''usd''))
                              (Math_round (js_mul m (Fin c005)))
                              (get_prop b ''bandStripeAccountId'') (get_prop b ''description'')) True]\<rparr>"
    by (rule payment_intent_success)
  have "m = n" using m h by simp
  then show "\<exists>secret ident.
         body (response (create_payment_intent rt stripe b)) =
           Json (JObj [(''clientSecret'', JStr secret),
                       (''paymentIntentId'', JStr ident),
                       (''platformFee'', JNum (Math_round (js_mul n (Fin c005)))),
                       (''bandAmount'', JNum (js_sub n (Math_round (js_mul n (Fin c005)))))])"
    unfolding r by simp
next
  assume "get_prop b ''amount'' = JNum (Fin (of_int a)) \<and> 0 \<le> a \<and> a < 2 ^ 50
      \<and> status (response (create_payment_intent rt stripe b)) = 200"
  then show "\<exists>secret ident.
         body (response (create_payment_intent rt stripe b)) =
           Json (JObj [(''clientSecret'', JStr secret),
                       (''paymentIntentId'', JStr ident),
                       (''platformFee'', JNum (Fin (of_int (round (real_of_int a * 0.05))))),
                       (''bandAmount'', JNum (Fin (of_int (a - round (real_of_int a * 0.05)))))])"
    using payment_intent_exact [of b a rt stripe] by simp
next
  show "response (create_payment_intent rt (Some stub_client)
         (JObj [(''amount'', JNum (Fin 10000)), (''bandStripeAccountId'', JStr ''acct_1'')])) =
       \<lparr>status = 200,
        body = Json (JObj [(''clientSecret'', JStr ''pi_1_secret''),
                           (''paymentIntentId'', JStr ''pi_1''),
                           (''platformFee'', JNum (Fin 500)),
                           (''bandAmount'', JNum (Fin 9500))])\<rparr>"
    using intent_stub_response [of rt] by (simp add: intent_body_def)
qed

theorem payment_intent_fee_split_witness:
  "get_prop intent_body ''amount'' = JNum (Fin (of_int 10000)) \<and> (0::int) \<le> 10000 \<and> (10000::int) < 2 ^ 50
   \<and> truthy (get_prop intent_body ''amount'') \<and> truthy (get_prop intent_body ''bandStripeAccountId'')
   \<and> paymentIntents_create stub_client
         (payment_intent_params (get_prop intent_body ''amount'')
            (with_default (get_prop intent_body ''currency'') (JStr ''usd''))
            (Fin (of_int (round (real_of_int 10000 * 0.05))))
            (get_prop intent_body ''bandStripeAccountId'') (get_prop intent_body ''description''))
       = Inr \<lparr>pi_id = ''pi_1'', client_secret = ''pi_1_secret''\<rparr>
   \<and> create_payment_intent test_runtime (Some stub_client) intent_body =
       \<lparr>response =
          \<lparr>status = 200,
           body = Json (JObj [(''clientSecret'', JStr ''pi_1_secret''),
                              (''paymentIntentId'', JStr ''pi_1''),
                              (''platformFee'', JNum (Fin 500)),
                              (''bandAmount'', JNum (Fin 9500))])\<rparr>,
        logs = [],
        calls = [Call PaymentIntentsCreate
                   (payment_intent_params (JNum (Fin 10000)) (JStr ''usd'') (Fin 500)
                      (JStr ''acct_1'') JUndefined) True]\<rparr>"
proof -
  have h: "get_prop intent_body ''amount'' = JNum (Fin (of_int 10000))"
    "truthy (get_prop intent_body ''amount'')" "truthy (get_prop intent_body ''bandStripeAccountId'')"
    by (simp_all add: intent_body_def)
  have c: "paymentIntents_create stub_client
         (payment_intent_params (get_prop intent_body ''amount'')
            (with_default (get_prop intent_body ''currency'') (JStr ''usd''))
            (Fin (of_int (round (real_of_int 10000 * 0.05))))
            (get_prop intent_body ''bandStripeAccountId'') (get_prop intent_body ''description''))
       = Inr \<lparr>pi_id = ''pi_1'', client_secret = ''pi_1_secret''\<rparr>"
    by (simp add: stub_client_def)
  have r: "round (real_of_int 10000 * 0.05) = 500" "10000 - round (real_of_int 10000 * 0.05) = 9500"
    by (simp_all add: round_fee)
  have g: "get_prop intent_body ''amount'' = JNum (Fin 10000)"
    "with_default (get_prop intent_body ''currency'') (JStr ''usd'') = JStr ''usd''"
    "get_prop intent_body ''bandStripeAccountId'' = JStr ''acct_1''"
    "get_prop intent_body ''description'' = JUndefined"
    by (simp_all add: intent_body_def with_default_def)
  show ?thesis
    using payment_intent_fee_split
        [where b = intent_body and n = "Fin 10000" and a = 10000 and rt = test_runtime
           and stripe = "Some stub_client" and s = stub_client
           and paymentIntent = "\<lparr>pi_id = ''pi_1'', client_secret = ''pi_1_secret''\<rparr>"]
      h c r g
    by simp
qed




section \<open>The health check\<close>

lemma init_stripe_missing_key:
  "\<not> truthy (env_value (STRIPE_SECRET_KEY env)) \<Longrightarrow> fst (init_stripe sdk env) = None"
  by (auto simp: init_stripe_def missing_key_def env_value_def split: option.splits)

lemma business_fails_without_client:
  "is_business req \<Longrightarrow>
   \<exists>out. handle rt env None req = Answered out
      \<and> (status (response out) = 400 \<or> status (response out) = 500)"
  by (cases req)
    (auto simp: create_connect_account_def connect_account_status_def create_payment_intent_def
      payout_dashboard_link_def webhook_def verify_event_def respond_def catch_500_def
      catch_connect_def catch_intent_def Let_def split: sum.splits)

text \<open>
  Claim C8. Whatever the environment and the SDK, GET / is answered with status 200 and
  the body \<^verbatim>\<open>{status, timestamp}\<close>, where \<^verbatim>\<open>status\<close> is
  \<^verbatim>\<open>CrowdFuel Backend Running\<close> and \<^verbatim>\<open>timestamp\<close> is the ISO string of the clock, which
  \<^verbatim>\<open>Date.parse\<close> reads back to the same time value; the handler sends nothing to the
  payment platform. With the secret key missing the client stays uninitialised and
  every business endpoint answers 400 or 500.
\<close>

theorem health_check:
  "server sdk rt env GetHealth =
     Answered
       \<lparr>response =
          \<lparr>status = 200,
           body = Json (JObj [(''status'', JStr ''CrowdFuel Backend Running''),
                              (''timestamp'', JStr (Date_toISOString (Date_now rt)))])\<rparr>,
        logs = [], calls = []\<rparr>
   \<and> (\<bar>Date_now rt\<bar> \<le> 8640000000000000 \<longrightarrow>
        Date_parse (Date_toISOString (Date_now rt)) = Some (Date_now rt))
   \<and> (\<not> truthy (env_value (STRIPE_SECRET_KEY env)) \<and> is_business req \<longrightarrow>
        (\<exists>out. server sdk rt env req = Answered out
           \<and> (status (response out) = 400 \<or> status (response out) = 500)))"
  using Date_parse_toISOString [of "Date_now rt"] business_fails_without_client [of req rt env]
  by (simp add: server_def health_def respond_def init_stripe_missing_key)

theorem health_check_witness:
  "\<bar>Date_now test_runtime\<bar> \<le> 8640000000000000
   \<and> \<not> truthy (env_value (STRIPE_SECRET_KEY keyless_env))
   \<and> is_business (PostCreateConnectAccount connect_body)
   \<and> server (\<lambda>key. Inr stub_client) test_runtime keyless_env GetHealth =
     Answered
       \<lparr>response =
          \<lparr>status = 200,
           body = Json (JObj [(''status'', JStr ''CrowdFuel Backend Running''),
                              (''timestamp'', JStr (Date_toISOString 1793699696789))])\<rparr>,
        logs = [], calls = []\<rparr>
   \<and> Date_parse (Date_toISOString 1793699696789) = Some 1793699696789
   \<and> (\<exists>out. server (\<lambda>key. Inr stub_client) test_runtime keyless_env
               (PostCreateConnectAccount connect_body) = Answered out
          \<and> status (response out) = 500)"
proof -
  have h: "\<bar>Date_now test_runtime\<bar> \<le> 8640000000000000"
    "\<not> truthy (env_value (STRIPE_SECRET_KEY keyless_env))"
    "is_business (PostCreateConnectAccount connect_body)"
    "Date_now test_runtime = 1793699696789"
    by (simp_all add: test_runtime_def keyless_env_def env_value_def)
  have s: "server (\<lambda>key. Inr stub_client) test_runtime keyless_env
             (PostCreateConnectAccount connect_body) =
           Answered (create_connect_account test_runtime None connect_body)"
    "status (response (create_connect_account test_runtime None connect_body)) \<noteq> 400"
    by (simp_all add: server_def init_stripe_def keyless_env_def missing_key_def
        create_connect_account_def connect_body_def handler_simps)
  show ?thesis
    using health_check [of "\<lambda>key. Inr stub_client" test_runtime keyless_env
        "PostCreateConnectAccount connect_body"] h s
    by auto
qed

end
